theory Spec2Isabelle
  imports Complex_Main "HOL-Library.AList"
begin

section \<open>Screens of \<^verbatim>\<open>pyg/screen.py\<close>\<close>

text \<open>
  The module defines the classes \<^verbatim>\<open>Screen\<close>, \<^verbatim>\<open>Screen2D\<close>, \<^verbatim>\<open>GraphScreen\<close> and
  \<^verbatim>\<open>Screen3D\<close>. Conventions of this embedding:
  \<^item> Python numbers are modelled as \<open>real\<close> (exact arithmetic): rounding and overflow of
    floats are not represented. Python raises \<^verbatim>\<open>ZeroDivisionError\<close> on \<^verbatim>\<open>/\<close> by zero for
    ints and floats alike, so every division of the source is guarded in the model.
  \<^item> A method that mutates \<^verbatim>\<open>self\<close> takes the object's state and returns a \<open>result\<close>:
    \<open>Done s\<close> when the method returns, \<open>Raised e s\<close> when it raises \<open>e\<close>, with \<open>s\<close> the
    state the object is left in (assignments made before the raise are kept, as in Python).
    Setters and helpers that contain no raising operation are plain state transformers; the
    buffer methods (\<^verbatim>\<open>set_points\<close>, \<^verbatim>\<open>add_points\<close>, ...) return a result throughout.
  \<^item> The class hierarchy is a hierarchy of extensible records; a base-class method is a
    function on every extension of the base record. Methods that a subclass overrides and
    that the base class calls through \<^verbatim>\<open>self\<close> (\<^verbatim>\<open>set_bg\<close>, \<^verbatim>\<open>render\<close>) are parameters.
  \<^item> The vertex and colour buffers are modelled by value: \<^verbatim>\<open>set_points\<close> and its siblings keep
    the list objects they are given, and the model takes the vertex and the colour list of a
    kind to be different objects that the caller leaves alone while they are buffered.
\<close>

subsection \<open>The rendering backend (pyglet), as far as the screens use it\<close>

datatype gl_mode = GL_POINTS | GL_LINES | GL_LINE_STRIP | GL_TRIANGLES | GL_QUADS

text \<open>A vertex list object as returned by \<^verbatim>\<open>Batch.add(count, mode, None, ('v3f', v), ('c3B', c))\<close>.
  \<open>vid\<close> is the identity of the object.\<close>

record vertex_list =
  vid :: nat
  vcount :: nat
  vmode :: gl_mode
  v3f :: "real list"
  c3B :: "int list"

text \<open>The backend is external to the module. It is modelled by the sequence of calls made on
  it: \<open>Add v\<close> for a \<^verbatim>\<open>Batch.add\<close> that returned \<open>v\<close>, \<open>Delete v\<close> for \<^verbatim>\<open>v.delete()\<close>. Both
  are taken to succeed always.\<close>

datatype gl_call = Add vertex_list | Delete vertex_list

record batch =
  next_vid :: nat
  calls :: "gl_call list"

definition new_batch :: batch where
  "new_batch = \<lparr>next_vid = 0, calls = []\<rparr>"

definition batch_add :: "nat \<Rightarrow> gl_mode \<Rightarrow> real list \<Rightarrow> int list \<Rightarrow> batch \<Rightarrow> vertex_list \<times> batch" where
  "batch_add n m v c b =
     (let vl = \<lparr>vid = next_vid b, vcount = n, vmode = m, v3f = v, c3B = c\<rparr>
      in (vl, \<lparr>next_vid = Suc (next_vid b), calls = calls b @ [Add vl]\<rparr>))"

definition vlist_delete :: "vertex_list \<Rightarrow> batch \<Rightarrow> batch" where
  "vlist_delete vl b = b\<lparr>calls := calls b @ [Delete vl]\<rparr>"

subsection \<open>Exceptions and results\<close>

datatype error = IndexError | ZeroDivisionError | AttributeError | KeyError | NotImplementedError

datatype 's result = Done 's | Raised error 's

fun state_of :: "'s result \<Rightarrow> 's" where
  "state_of (Done s) = s"
| "state_of (Raised e s) = s"

fun and_then :: "'s result \<Rightarrow> ('s \<Rightarrow> 's result) \<Rightarrow> 's result" where
  "and_then (Done s) f = f s"
| "and_then (Raised e s) f = Raised e s"

text \<open>A \<^verbatim>\<open>for\<close> loop over a fixed sequence whose body may raise.\<close>

fun for_each :: "('k \<Rightarrow> 's \<Rightarrow> 's result) \<Rightarrow> 'k list \<Rightarrow> 's \<Rightarrow> 's result" where
  "for_each body [] s = Done s"
| "for_each body (k # ks) s = and_then (body k s) (for_each body ks)"

subsection \<open>Class \<^verbatim>\<open>Screen\<close>\<close>

text \<open>\<^verbatim>\<open>self._vertex_lists\<close> is a dict whose key set changes (\<^verbatim>\<open>flush\<close> deletes keys), so it is
  an association list in insertion order, read with \<open>map_of\<close>: \<open>None\<close> is a missing key,
  \<open>Some None\<close> the value \<^verbatim>\<open>None\<close>, \<open>Some (Some v)\<close> a vertex list (any vertex list object is
  truthy). \<^verbatim>\<open>self._vertices\<close> and \<^verbatim>\<open>self._colors\<close> keep their keys (the only \<^verbatim>\<open>del\<close> on
  them, in \<^verbatim>\<open>_clear\<close>, is followed by a re-insertion) and are total functions.\<close>

record screen =
  scr_x :: real
  scr_y :: real
  scr_w :: real
  scr_h :: real
  visible :: bool
  active :: bool
  batch :: batch
  vertex_lists :: "(string \<times> vertex_list option) list"
  vertices :: "string \<Rightarrow> real list"
  colors :: "string \<Rightarrow> int list"
  bg :: "int list"

definition vertex_types :: "string list" where
  "vertex_types = [''points'', ''lines'', ''line_strip'', ''triangles'', ''quads'']"

text \<open>\<^verbatim>\<open>if h: h.delete()\<close> for a value \<open>h\<close> read from \<^verbatim>\<open>self._vertex_lists\<close>.\<close>

fun release :: "vertex_list option \<Rightarrow> batch \<Rightarrow> batch" where
  "release None b = b"
| "release (Some v) b = vlist_delete v b"

text \<open>The body of \<^verbatim>\<open>Screen.__init__\<close> before its last statement, the call \<^verbatim>\<open>self.set_bg(bg)\<close>,
  which the subclasses' constructors below add.\<close>

definition Screen_fields :: "real \<Rightarrow> real \<Rightarrow> real \<Rightarrow> real \<Rightarrow> int list \<Rightarrow> bool \<Rightarrow> bool \<Rightarrow> screen" where
  "Screen_fields px py width height c vis act =
     \<lparr>scr_x = px, scr_y = py, scr_w = width, scr_h = height, visible = vis, active = act,
      batch = new_batch,
      vertex_lists = (''bg'', None) # map (\<lambda>vtype. (vtype, None)) vertex_types,
      vertices = (\<lambda>vtype. []), colors = (\<lambda>vtype. []), bg = c\<rparr>"

text \<open>\<^verbatim>\<open>for vtype in self._vertex_lists.keys(): ...\<close> of \<^verbatim>\<open>set_visible(False)\<close>: one iteration.\<close>

definition hide_key :: "string \<Rightarrow> 'a screen_scheme \<Rightarrow> 'a screen_scheme" where
  "hide_key vtype s =
     (case map_of (vertex_lists s) vtype of
        Some (Some v) \<Rightarrow>
          s\<lparr>batch := vlist_delete v (batch s),
            vertex_lists := AList.update vtype None (vertex_lists s)\<rparr>
      | _ \<Rightarrow> s\<lparr>vertex_lists := AList.update vtype None (vertex_lists s)\<rparr>)"

definition set_visible ::
  "(int list \<Rightarrow> 'a screen_scheme \<Rightarrow> 'a screen_scheme result) \<Rightarrow>
   ('a screen_scheme \<Rightarrow> 'a screen_scheme result) \<Rightarrow> bool \<Rightarrow> 'a screen_scheme \<Rightarrow>
   'a screen_scheme result" where
  "set_visible set_bg render vis s =
     (let s1 = s\<lparr>visible := vis\<rparr>
      in if vis then and_then (render s1) (\<lambda>s2. set_bg (bg s2) s2)
         else Done (fold hide_key (map fst (vertex_lists s1)) s1))"

definition set_active :: "bool \<Rightarrow> 'a screen_scheme \<Rightarrow> 'a screen_scheme" where
  "set_active act s = s\<lparr>active := act\<rparr>"

definition set_points :: "real list \<Rightarrow> int list \<Rightarrow> 'a screen_scheme \<Rightarrow> 'a screen_scheme result" where
  "set_points vertexes cs s =
     Done (s\<lparr>vertices := (vertices s)(''points'' := vertexes),
             colors := (colors s)(''points'' := cs)\<rparr>)"

definition set_line_strip :: "real list \<Rightarrow> int list \<Rightarrow> 'a screen_scheme \<Rightarrow> 'a screen_scheme result" where
  "set_line_strip vertexes cs s =
     Done (s\<lparr>vertices := (vertices s)(''line_strip'' := vertexes),
             colors := (colors s)(''line_strip'' := cs)\<rparr>)"

text \<open>\<^verbatim>\<open>Screen.render\<close> is \<^verbatim>\<open>pass\<close>; applications override it.\<close>

definition Screen_render :: "'s \<Rightarrow> 's result" where
  "Screen_render s = Done s"

text \<open>The \<^verbatim>\<open>if\<close>/\<^verbatim>\<open>elif\<close> chain of \<^verbatim>\<open>flush\<close> that picks the primitive topology; \<open>None\<close> is
  its \<^verbatim>\<open>else\<close> branch (\<^verbatim>\<open>vlist = None\<close>).\<close>

definition topology :: "string \<Rightarrow> gl_mode option" where
  "topology vtype =
     (if vtype = ''points'' then Some GL_POINTS
      else if vtype = ''lines'' then Some GL_LINES
      else if vtype = ''line_strip'' then Some GL_LINE_STRIP
      else if vtype = ''triangles'' then Some GL_TRIANGLES
      else if vtype = ''quads'' then Some GL_QUADS
      else None)"

text \<open>One iteration of the loop of \<^verbatim>\<open>flush\<close>. \<^verbatim>\<open>self._vertex_lists[vtype]\<close> raises
  \<^verbatim>\<open>KeyError\<close> on a missing key; \<^verbatim>\<open>continue\<close> ends the iteration when the screen is not
  visible.\<close>

definition flush_vtype :: "string \<Rightarrow> 'a screen_scheme \<Rightarrow> 'a screen_scheme result" where
  "flush_vtype vtype s =
     (case map_of (vertex_lists s) vtype of
        None \<Rightarrow> Raised KeyError s
      | Some held \<Rightarrow>
          let s1 = (case held of
                      None \<Rightarrow> s
                    | Some v \<Rightarrow> s\<lparr>batch := vlist_delete v (batch s),
                                  vertex_lists := AList.delete vtype (vertex_lists s)\<rparr>)
          in if \<not> visible s1 then Done s1
             else (case topology vtype of
                     None \<Rightarrow> Done (s1\<lparr>vertex_lists := AList.update vtype None (vertex_lists s1)\<rparr>)
                   | Some m \<Rightarrow>
                       let (vl, b) = batch_add (length (vertices s1 vtype) div 3) m
                                       (vertices s1 vtype) (colors s1 vtype) (batch s1)
                       in Done (s1\<lparr>batch := b,
                                  vertex_lists := AList.update vtype (Some vl) (vertex_lists s1)\<rparr>)))"

definition clear_vtype :: "string \<Rightarrow> 'a screen_scheme \<Rightarrow> 'a screen_scheme" where
  "clear_vtype vtype s =
     s\<lparr>vertices := (vertices s)(vtype := []), colors := (colors s)(vtype := [])\<rparr>"

definition clear :: "'a screen_scheme \<Rightarrow> 'a screen_scheme" where
  "clear s = fold clear_vtype vertex_types s"

definition flush :: "'a screen_scheme \<Rightarrow> 'a screen_scheme result" where
  "flush s = and_then (for_each flush_vtype vertex_types s) (\<lambda>s'. Done (clear s'))"

definition is_inside :: "'a screen_scheme \<Rightarrow> real \<Rightarrow> real \<Rightarrow> bool" where
  "is_inside s px py \<longleftrightarrow>
     0 \<le> px - scr_x s \<and> px - scr_x s < scr_w s \<and> 0 \<le> py - scr_y s \<and> py - scr_y s < scr_h s"

definition set_pos :: "real \<Rightarrow> real \<Rightarrow> 'a screen_scheme \<Rightarrow> 'a screen_scheme" where
  "set_pos px py s = s\<lparr>scr_x := px, scr_y := py\<rparr>"

definition set_size :: "real \<Rightarrow> real \<Rightarrow> 'a screen_scheme \<Rightarrow> 'a screen_scheme" where
  "set_size width height s = s\<lparr>scr_w := width, scr_h := height\<rparr>"

subsection \<open>Class \<^verbatim>\<open>Screen2D\<close>\<close>

definition Screen2D_set_bg :: "int list \<Rightarrow> 'a screen_scheme \<Rightarrow> 'a screen_scheme result" where
  "Screen2D_set_bg c s =
     (case map_of (vertex_lists s) ''bg'' of
        None \<Rightarrow> Raised KeyError s
      | Some held \<Rightarrow>
          let (vl, b) = batch_add 4 GL_QUADS
                          [0, 0, -100, scr_w s, 0, -100, scr_w s, scr_h s, -100, 0, scr_h s, -100]
                          (concat (replicate 4 c)) (release held (batch s))
          in Done (s\<lparr>batch := b, bg := c,
                     vertex_lists := AList.update ''bg'' (Some vl) (vertex_lists s)\<rparr>))"

definition Screen2D_init :: "real \<Rightarrow> real \<Rightarrow> real \<Rightarrow> real \<Rightarrow> int list \<Rightarrow> bool \<Rightarrow> bool \<Rightarrow> screen result" where
  "Screen2D_init px py width height c vis act =
     Screen2D_set_bg c (Screen_fields px py width height c vis act)"

definition Screen2D_add_point :: "real \<Rightarrow> real \<Rightarrow> real \<Rightarrow> int list \<Rightarrow> 'a screen_scheme \<Rightarrow> 'a screen_scheme result" where
  "Screen2D_add_point px py pz c s =
     Done (s\<lparr>vertices := (vertices s)(''points'' := vertices s ''points'' @ [px, py, pz]),
             colors := (colors s)(''points'' := colors s ''points'' @ c)\<rparr>)"

definition Screen2D_add_points :: "real list \<Rightarrow> int list \<Rightarrow> 'a screen_scheme \<Rightarrow> 'a screen_scheme result" where
  "Screen2D_add_points points cs s =
     (if length points \<noteq> length cs then Raised IndexError s
      else Done (s\<lparr>vertices := (vertices s)(''points'' := vertices s ''points'' @ points),
                  colors := (colors s)(''points'' := colors s ''points'' @ cs)\<rparr>))"

definition Screen2D_add_line :: "real \<Rightarrow> real \<Rightarrow> real \<Rightarrow> real \<Rightarrow> real \<Rightarrow> int list \<Rightarrow> 'a screen_scheme \<Rightarrow> 'a screen_scheme result" where
  "Screen2D_add_line x1 y1 x2 y2 pz c s =
     Done (s\<lparr>vertices := (vertices s)(''lines'' := vertices s ''lines'' @ [x1, y1, pz, x2, y2, pz]),
             colors := (colors s)(''lines'' := colors s ''lines'' @ concat (replicate 2 c))\<rparr>)"

subsection \<open>Class \<^verbatim>\<open>GraphScreen\<close>\<close>

text \<open>The attributes \<^verbatim>\<open>mdownx\<close> and \<^verbatim>\<open>mdowny\<close> are created by \<^verbatim>\<open>mouse_down\<close> only: \<open>None\<close> is
  the attribute not existing, and reading it then raises \<^verbatim>\<open>AttributeError\<close>. \<open>zoom_value\<close>
  is \<^verbatim>\<open>self.zoom_valobj.value\<close>, the current value of the shared zoom-ratio object.\<close>

record graph_screen = screen +
  gx :: real
  gy :: real
  gw :: real
  gh :: real
  min_gx :: real
  max_gx :: real
  min_gy :: real
  max_gy :: real
  ogx :: real
  ogy :: real
  ogw :: real
  ogh :: real
  ow :: real
  oh :: real
  zoom_value :: real
  total_zoom :: real
  drag :: bool
  offsx :: real
  offsy :: real
  mdownx :: "real option"
  mdowny :: "real option"

text \<open>Constants of \<^verbatim>\<open>pyglet.window.mouse\<close> and \<^verbatim>\<open>pyglet.window.key\<close>.\<close>

definition mouse_LEFT :: int where "mouse_LEFT = 1"
definition mouse_MIDDLE :: int where "mouse_MIDDLE = 2"
definition mouse_RIGHT :: int where "mouse_RIGHT = 4"

definition key_LEFT :: int where "key_LEFT = 65361"
definition key_UP :: int where "key_UP = 65362"
definition key_RIGHT :: int where "key_RIGHT = 65363"
definition key_DOWN :: int where "key_DOWN = 65364"
definition key_A :: int where "key_A = 97"
definition key_I :: int where "key_I = 105"
definition key_J :: int where "key_J = 106"
definition key_K :: int where "key_K = 107"
definition key_L :: int where "key_L = 108"
definition key_S :: int where "key_S = 115"
definition key_X :: int where "key_X = 120"
definition key_Z :: int where "key_Z = 122"

definition set_graph_minmax :: "graph_screen \<Rightarrow> graph_screen" where
  "set_graph_minmax s =
     s\<lparr>min_gx := gx s - gw s / 2, max_gx := gx s + gw s / 2,
       min_gy := gy s - gh s / 2, max_gy := gy s + gh s / 2\<rparr>"

definition reset_graph :: "graph_screen \<Rightarrow> graph_screen result" where
  "reset_graph s =
     (let s1 = s\<lparr>gx := ogx s, gy := ogy s\<rparr>
      in if ow s1 = 0 then Raised ZeroDivisionError s1
         else let s2 = s1\<lparr>gw := ogw s1 * (scr_w s1 / ow s1)\<rparr>
              in if oh s2 = 0 then Raised ZeroDivisionError s2
                 else let s3 = s2\<lparr>gh := ogh s2 * (scr_h s2 / oh s2)\<rparr>
                      in Done ((set_graph_minmax s3)\<lparr>total_zoom := 1\<rparr>))"

definition reset_to :: "real \<Rightarrow> real \<Rightarrow> real \<Rightarrow> real \<Rightarrow> graph_screen \<Rightarrow> graph_screen" where
  "reset_to vx vy vw vh s = s\<lparr>ogx := vx, ogy := vy, ogw := vw, ogh := vh\<rparr>"

definition set_graph_coords :: "real \<Rightarrow> real \<Rightarrow> real \<Rightarrow> real \<Rightarrow> graph_screen \<Rightarrow> graph_screen" where
  "set_graph_coords vx vy vw vh s = s\<lparr>gx := vx, gy := vy, gw := vw, gh := vh\<rparr>"

text \<open>\<^verbatim>\<open>zoom ** .5\<close> is a complex number in Python 3 when \<^verbatim>\<open>zoom\<close> is negative; the view would
  then hold complex extents, which this embedding does not represent. The model returns
  \<open>None\<close> in that case and is exact for \<open>zoom \<ge> 0\<close>.\<close>

definition set_graph_view :: "real \<Rightarrow> real \<Rightarrow> real \<Rightarrow> graph_screen \<Rightarrow> graph_screen result option" where
  "set_graph_view vx vy zoom s =
     (let s1 = s\<lparr>gx := vx, gy := vy, total_zoom := zoom\<rparr>
      in if zoom < 0 then None
         else let sqrt_z = sqrt zoom
              in if sqrt_z = 0 then Some (Raised ZeroDivisionError s1)
                 else let s2 = s1\<lparr>gw := ogw s1 / sqrt_z\<rparr>
                      in if scr_w s2 = 0 then Some (Raised ZeroDivisionError s2)
                         else Some (Done (s2\<lparr>gh := gw s2 * scr_h s2 / scr_w s2\<rparr>)))"

definition refit :: "real \<Rightarrow> real \<Rightarrow> graph_screen \<Rightarrow> graph_screen result" where
  "refit width height s =
     (if scr_w s = 0 then Raised ZeroDivisionError s
      else let s1 = s\<lparr>gw := gw s * (width / scr_w s)\<rparr>
           in if scr_h s1 = 0 then Raised ZeroDivisionError s1
              else let s2 = s1\<lparr>gh := gh s1 * (height / scr_h s1)\<rparr>;
                       s3 = set_graph_minmax s2
                   in Done (s3\<lparr>scr_w := width, scr_h := height\<rparr>))"

definition resize :: "real \<Rightarrow> real \<Rightarrow> graph_screen \<Rightarrow> graph_screen result" where
  "resize width height s = refit width width s"

definition GraphScreen_set_bg :: "int list \<Rightarrow> graph_screen \<Rightarrow> graph_screen result" where
  "GraphScreen_set_bg c s =
     (case map_of (vertex_lists s) ''bg'' of
        None \<Rightarrow> Raised KeyError s
      | Some held \<Rightarrow>
          let (vl, b) = batch_add 4 GL_QUADS
                          [min_gx s, min_gy s, -100, max_gx s, min_gy s, -100,
                           max_gx s, max_gy s, -100, min_gx s, max_gy s, -100]
                          (concat (replicate 4 c)) (release held (batch s))
          in Done (s\<lparr>batch := b, bg := c,
                     vertex_lists := AList.update ''bg'' (Some vl) (vertex_lists s)\<rparr>))"

text \<open>\<^verbatim>\<open>GraphScreen.__init__\<close>: \<^verbatim>\<open>set_graph_coords\<close>, \<^verbatim>\<open>_set_graph_minmax\<close> and \<^verbatim>\<open>reset_to\<close>, then
  \<^verbatim>\<open>Screen.__init__\<close> (which ends with \<^verbatim>\<open>self.set_bg(bg)\<close>), then the remaining attributes.
  A record has all its fields from the start, so the attributes assigned after
  \<^verbatim>\<open>self.set_bg(bg)\<close>, which that call does not read, are already in the record it is applied to;
  the bounding box fields get their first value from \<open>set_graph_minmax\<close>.\<close>

definition GraphScreen_init ::
  "real \<Rightarrow> real \<Rightarrow> real \<Rightarrow> real \<Rightarrow> real \<Rightarrow> real \<Rightarrow> real \<Rightarrow> real \<Rightarrow> real \<Rightarrow> int list \<Rightarrow> bool \<Rightarrow> bool \<Rightarrow>
   graph_screen result" where
  "GraphScreen_init px py width height vx vy vw vh zoom c vis act =
     GraphScreen_set_bg c
       (reset_to vx vy vw vh
         (set_graph_minmax
           (set_graph_coords vx vy vw vh
             (screen.extend (Screen_fields px py width height c vis act)
                \<lparr>gx = 0, gy = 0, gw = 0, gh = 0, min_gx = 0, max_gx = 0, min_gy = 0, max_gy = 0,
                 ogx = 0, ogy = 0, ogw = 0, ogh = 0, ow = width, oh = height,
                 zoom_value = zoom, total_zoom = 1, drag = False, offsx = 0, offsy = 0,
                 mdownx = None, mdowny = None\<rparr>))))"

definition reset_screen :: "(graph_screen \<Rightarrow> graph_screen result) \<Rightarrow> graph_screen \<Rightarrow> graph_screen result" where
  "reset_screen render s =
     and_then (and_then (reset_graph s) (\<lambda>s1. GraphScreen_set_bg (bg s1) s1)) render"

definition up :: "(graph_screen \<Rightarrow> graph_screen result) \<Rightarrow> graph_screen \<Rightarrow> graph_screen result" where
  "up render s =
     (let s1 = set_graph_minmax (s\<lparr>gy := gy s + gh s / 5\<rparr>)
      in and_then (GraphScreen_set_bg (bg s1) s1) render)"

definition down :: "(graph_screen \<Rightarrow> graph_screen result) \<Rightarrow> graph_screen \<Rightarrow> graph_screen result" where
  "down render s =
     (let s1 = set_graph_minmax (s\<lparr>gy := gy s - gh s / 5\<rparr>)
      in and_then (GraphScreen_set_bg (bg s1) s1) render)"

definition left :: "(graph_screen \<Rightarrow> graph_screen result) \<Rightarrow> graph_screen \<Rightarrow> graph_screen result" where
  "left render s =
     (let s1 = set_graph_minmax (s\<lparr>gx := gx s - gw s / 5\<rparr>)
      in and_then (GraphScreen_set_bg (bg s1) s1) render)"

definition right :: "(graph_screen \<Rightarrow> graph_screen result) \<Rightarrow> graph_screen \<Rightarrow> graph_screen result" where
  "right render s =
     (let s1 = set_graph_minmax (s\<lparr>gx := gx s + gw s / 5\<rparr>)
      in and_then (GraphScreen_set_bg (bg s1) s1) render)"

text \<open>Both components are computed before the tuple is returned; either division may raise.\<close>

definition on_screen :: "graph_screen \<Rightarrow> real \<Rightarrow> real \<Rightarrow> error + real \<times> real" where
  "on_screen s px py =
     (if gw s = 0 \<or> gh s = 0 then Inl ZeroDivisionError
      else Inr ((px - gx s + gw s / 2) * scr_w s / gw s, (py - gy s + gh s / 2) * scr_h s / gh s))"

definition on_plot :: "graph_screen \<Rightarrow> real \<Rightarrow> real \<Rightarrow> error + real \<times> real" where
  "on_plot s px py =
     (if scr_w s = 0 \<or> scr_h s = 0 then Inl ZeroDivisionError
      else Inr (px * gw s / scr_w s + gx s - gw s / 2, py * gh s / scr_h s + gy s - gh s / 2))"

definition mouse_drag :: "real \<Rightarrow> real \<Rightarrow> graph_screen \<Rightarrow> graph_screen result" where
  "mouse_drag px py s =
     (if drag s then
        (case mdownx s of
           None \<Rightarrow> Raised AttributeError s
         | Some dx \<Rightarrow>
             let s1 = s\<lparr>offsx := px - dx\<rparr>
             in (case mdowny s1 of
                   None \<Rightarrow> Raised AttributeError s1
                 | Some dy \<Rightarrow> Done (s1\<lparr>offsy := py - dy\<rparr>)))
      else Done s)"

definition mouse_down :: "real \<Rightarrow> real \<Rightarrow> int \<Rightarrow> graph_screen \<Rightarrow> graph_screen" where
  "mouse_down px py button s =
     (if button = mouse_MIDDLE then s\<lparr>drag := True, mdownx := Some px, mdowny := Some py\<rparr>
      else s)"

text \<open>The three branches of \<^verbatim>\<open>mouse_up\<close>, statement by statement.\<close>

definition zoom_in :: "real \<Rightarrow> real \<Rightarrow> graph_screen \<Rightarrow> graph_screen result" where
  "zoom_in px py s =
     (if scr_w s = 0 then Raised ZeroDivisionError s
      else let s1 = s\<lparr>gx := gx s - gw s / 2 + px * gw s / scr_w s\<rparr>
           in if scr_h s1 = 0 then Raised ZeroDivisionError s1
              else let s2 = s1\<lparr>gy := gy s1 - gh s1 / 2 + py * gh s1 / scr_h s1\<rparr>;
                       s3 = s2\<lparr>gw := gw s2 * zoom_value s2\<rparr>;
                       s4 = s3\<lparr>gh := gh s3 * zoom_value s3\<rparr>;
                       s5 = set_graph_minmax s4
                   in if zoom_value s5 = 0 then Raised ZeroDivisionError s5
                      else Done (s5\<lparr>total_zoom := total_zoom s5 * (1 / zoom_value s5) ^ 2\<rparr>))"

definition zoom_out :: "real \<Rightarrow> real \<Rightarrow> graph_screen \<Rightarrow> graph_screen result" where
  "zoom_out px py s =
     (if scr_w s = 0 then Raised ZeroDivisionError s
      else let s1 = s\<lparr>gx := gx s - gw s / 2 + px * gw s / scr_w s\<rparr>
           in if scr_h s1 = 0 then Raised ZeroDivisionError s1
              else let s2 = s1\<lparr>gy := gy s1 - gh s1 / 2 + py * gh s1 / scr_h s1\<rparr>
                   in if zoom_value s2 = 0 then Raised ZeroDivisionError s2
                      else let s3 = s2\<lparr>gw := gw s2 / zoom_value s2\<rparr>;
                               s4 = s3\<lparr>gh := gh s3 / zoom_value s3\<rparr>;
                               s5 = set_graph_minmax s4
                           in if (1 / zoom_value s5) ^ 2 = 0 then Raised ZeroDivisionError s5
                              else Done (s5\<lparr>total_zoom := total_zoom s5 / (1 / zoom_value s5) ^ 2\<rparr>))"

definition pan :: "real \<Rightarrow> real \<Rightarrow> graph_screen \<Rightarrow> graph_screen result" where
  "pan px py s =
     (let s1 = s\<lparr>drag := False\<rparr>
      in case mdownx s1 of
           None \<Rightarrow> Raised AttributeError s1
         | Some dx \<Rightarrow>
            (case mdowny s1 of
               None \<Rightarrow> Raised AttributeError s1
             | Some dy \<Rightarrow>
                (case on_plot s1 dx dy of
                   Inl e \<Rightarrow> Raised e s1
                 | Inr (msx1, msy1) \<Rightarrow>
                    (case on_plot s1 px py of
                       Inl e \<Rightarrow> Raised e s1
                     | Inr (msx2, msy2) \<Rightarrow>
                         let s2 = s1\<lparr>gx := gx s1 - (msx2 - msx1)\<rparr>;
                             s3 = s2\<lparr>gy := gy s2 - (msy2 - msy1)\<rparr>;
                             s4 = set_graph_minmax s3
                         in Done (s4\<lparr>offsx := 0, offsy := 0\<rparr>)))))"

definition mouse_up ::
  "(graph_screen \<Rightarrow> graph_screen result) \<Rightarrow> real \<Rightarrow> real \<Rightarrow> int \<Rightarrow> graph_screen \<Rightarrow> graph_screen result" where
  "mouse_up render px py button s =
     and_then
       (and_then
          (if button = mouse_LEFT then zoom_in px py s
           else if button = mouse_RIGHT then zoom_out px py s
           else if button = mouse_MIDDLE then pan px py s
           else Done s)
          (\<lambda>s1. GraphScreen_set_bg (bg s1) s1))
       render"

definition GraphScreen_key_down ::
  "(graph_screen \<Rightarrow> graph_screen result) \<Rightarrow> int \<Rightarrow> graph_screen \<Rightarrow> graph_screen result" where
  "GraphScreen_key_down render symbol s =
     (if symbol = key_LEFT then left render s
      else if symbol = key_RIGHT then right render s
      else if symbol = key_UP then up render s
      else if symbol = key_DOWN then down render s
      else Done s)"

subsection \<open>Class \<^verbatim>\<open>Screen3D\<close>\<close>

text \<open>\<^verbatim>\<open>camera\<close>, \<^verbatim>\<open>rotation\<close> and \<^verbatim>\<open>offset\<close> are 3d vectors (\<^verbatim>\<open>Vector(3d)\<close> in the constructor's
  docstring) that the caller passes in; the constructor keeps the objects it is given and
  \<^verbatim>\<open>key_down\<close> mutates them in place (\<^verbatim>\<open>self.rotation[2] += 5\<close>). Whether two of the
  attributes are the same object matters, so the vectors live in a store indexed by
  reference, and the attributes are references.\<close>

type_synonym vector3 = "real \<times> real \<times> real"

text \<open>\<^verbatim>\<open>v[i]\<close> and \<^verbatim>\<open>v[i] = r\<close>; the source uses the indices 0, 1 and 2 only.\<close>

fun getitem :: "vector3 \<Rightarrow> nat \<Rightarrow> real" where
  "getitem (v0, v1, v2) i = (if i = 0 then v0 else if i = 1 then v1 else v2)"

fun setitem :: "vector3 \<Rightarrow> nat \<Rightarrow> real \<Rightarrow> vector3" where
  "setitem (v0, v1, v2) i r =
     (if i = 0 then (r, v1, v2) else if i = 1 then (v0, r, v2) else (v0, v1, r))"

record screen3d = screen +
  camera :: nat
  rotation :: nat
  offset :: nat
  store :: "nat \<Rightarrow> vector3"

text \<open>\<^verbatim>\<open>ref[i] = r\<close> and \<^verbatim>\<open>ref[i] += d\<close> for a reference \<open>ref\<close> into the store.\<close>

definition assign_item :: "nat \<Rightarrow> nat \<Rightarrow> real \<Rightarrow> screen3d \<Rightarrow> screen3d" where
  "assign_item ref i r s = s\<lparr>store := (store s)(ref := setitem (store s ref) i r)\<rparr>"

definition add_item :: "nat \<Rightarrow> nat \<Rightarrow> real \<Rightarrow> screen3d \<Rightarrow> screen3d" where
  "add_item ref i d s = assign_item ref i (getitem (store s ref) i + d) s"

definition Screen3D_add_points :: "real list \<Rightarrow> int list \<Rightarrow> screen3d \<Rightarrow> screen3d result" where
  "Screen3D_add_points points cs s =
     Done (s\<lparr>vertices := (vertices s)(''points'' := vertices s ''points'' @ points),
             colors := (colors s)(''points'' := colors s ''points'' @ cs)\<rparr>)"

definition Screen3D_key_down :: "int \<Rightarrow> screen3d \<Rightarrow> screen3d" where
  "Screen3D_key_down symbol s =
     (if symbol = key_LEFT then add_item (rotation s) 2 5 s
      else if symbol = key_RIGHT then add_item (rotation s) 2 (- 5) s
      else if symbol = key_UP then add_item (rotation s) 0 5 s
      else if symbol = key_DOWN then add_item (rotation s) 0 (- 5) s
      else if symbol = key_X then add_item (rotation s) 1 (- 5) s
      else if symbol = key_Z then add_item (rotation s) 1 5 s
      else if symbol = key_S then
        (let s1 = add_item (camera s) 2 10 s
         in if getitem (store s1 (camera s1)) 2 > 400 then assign_item (camera s1) 2 400 s1
            else s1)
      else if symbol = key_A then
        (let s1 = add_item (camera s) 2 (- 10) s
         in if getitem (store s1 (camera s1)) 2 < - 400 then assign_item (camera s1) 2 (- 400) s1
            else s1)
      else if symbol = key_J then add_item (camera s) 0 2 s
      else if symbol = key_L then add_item (camera s) 0 (- 2) s
      else if symbol = key_I then add_item (camera s) 1 (- 2) s
      else if symbol = key_K then add_item (camera s) 1 2 s
      else s)"

text \<open>\<^verbatim>\<open>self.camera[2]\<close>.\<close>

definition camera_z :: "screen3d \<Rightarrow> real" where
  "camera_z s = getitem (store s (camera s)) 2"

subsection \<open>Sequences of calls on a \<^verbatim>\<open>GraphScreen\<close>\<close>

text \<open>The methods of a \<^verbatim>\<open>GraphScreen\<close> modelled above, as data, so that statements can range
  over every sequence of calls. \<open>Zoom_ratio r\<close> is the owner of the shared zoom-ratio object
  setting its value. \<^verbatim>\<open>set_graph_view\<close> is not among them (its result type differs).\<close>

datatype event =
    Mouse_down real real int
  | Mouse_drag real real
  | Mouse_up real real int
  | Key_down int
  | Go_up
  | Go_down
  | Go_left
  | Go_right
  | Refit real real
  | Resize real real
  | Reset_graph
  | Reset_screen
  | Reset_to real real real real
  | Set_graph_coords real real real real
  | Set_visible bool
  | Set_active bool
  | Set_pos real real
  | Set_size real real
  | Set_bg "int list"
  | Set_points "real list" "int list"
  | Add_points "real list" "int list"
  | Flush
  | Zoom_ratio real

fun apply_event ::
  "(graph_screen \<Rightarrow> graph_screen result) \<Rightarrow> event \<Rightarrow> graph_screen \<Rightarrow> graph_screen result" where
  "apply_event render (Mouse_down px py button) s = Done (mouse_down px py button s)"
| "apply_event render (Mouse_drag px py) s = mouse_drag px py s"
| "apply_event render (Mouse_up px py button) s = mouse_up render px py button s"
| "apply_event render (Key_down symbol) s = GraphScreen_key_down render symbol s"
| "apply_event render Go_up s = up render s"
| "apply_event render Go_down s = down render s"
| "apply_event render Go_left s = left render s"
| "apply_event render Go_right s = right render s"
| "apply_event render (Refit width height) s = refit width height s"
| "apply_event render (Resize width height) s = resize width height s"
| "apply_event render Reset_graph s = reset_graph s"
| "apply_event render Reset_screen s = reset_screen render s"
| "apply_event render (Reset_to vx vy vw vh) s = Done (reset_to vx vy vw vh s)"
| "apply_event render (Set_graph_coords vx vy vw vh) s = Done (set_graph_coords vx vy vw vh s)"
| "apply_event render (Set_visible vis) s = set_visible GraphScreen_set_bg render vis s"
| "apply_event render (Set_active act) s = Done (set_active act s)"
| "apply_event render (Set_pos px py) s = Done (set_pos px py s)"
| "apply_event render (Set_size width height) s = Done (set_size width height s)"
| "apply_event render (Set_bg c) s = GraphScreen_set_bg c s"
| "apply_event render (Set_points vertexes cs) s = set_points vertexes cs s"
| "apply_event render (Add_points points cs) s = Screen2D_add_points points cs s"
| "apply_event render Flush s = flush s"
| "apply_event render (Zoom_ratio r) s = Done (s\<lparr>zoom_value := r\<rparr>)"

text \<open>A sequence of calls on one screen. A call that raises leaves the screen in the state
  reached at the raise, and the next call starts from that state (the caller caught the
  exception); a run that stops at the first exception is a prefix of such a sequence.\<close>

fun run :: "(graph_screen \<Rightarrow> graph_screen result) \<Rightarrow> event list \<Rightarrow> graph_screen \<Rightarrow> graph_screen" where
  "run render [] s = s"
| "run render (e # es) s = run render es (state_of (apply_event render e s))"

fun is_reset_to :: "event \<Rightarrow> bool" where
  "is_reset_to (Reset_to vx vy vw vh) = True"
| "is_reset_to e = False"

fun is_middle_down :: "event \<Rightarrow> bool" where
  "is_middle_down (Mouse_down px py button) = (button = mouse_MIDDLE)"
| "is_middle_down e = False"

text \<open>Zoom (left and right button release), pan (middle button press, drag and release) and
  nudge (arrow keys, \<^verbatim>\<open>up\<close>, \<^verbatim>\<open>down\<close>, \<^verbatim>\<open>left\<close>, \<^verbatim>\<open>right\<close>).\<close>

fun is_view_op :: "event \<Rightarrow> bool" where
  "is_view_op (Mouse_down px py button) = True"
| "is_view_op (Mouse_drag px py) = True"
| "is_view_op (Mouse_up px py button) = True"
| "is_view_op (Key_down symbol) = True"
| "is_view_op Go_up = True"
| "is_view_op Go_down = True"
| "is_view_op Go_left = True"
| "is_view_op Go_right = True"
| "is_view_op e = False"

subsection \<open>Vocabulary of the properties\<close>

text \<open>The contract of a \<^verbatim>\<open>render\<close> override, from the docstring of \<^verbatim>\<open>Screen.render\<close> (``all calls to
  add points, lines, etc. should be here; \<^verbatim>\<open>self.flush()\<close> must be called at the end''): it
  changes the buffers, the handle table and the batch only.\<close>

definition render_contract :: "(graph_screen \<Rightarrow> graph_screen result) \<Rightarrow> bool" where
  "render_contract render \<longleftrightarrow>
     (\<forall>s. state_of (render s) =
            s\<lparr>batch := batch (state_of (render s)),
              vertex_lists := vertex_lists (state_of (render s)),
              vertices := vertices (state_of (render s)),
              colors := colors (state_of (render s))\<rparr>)"

fun raised :: "'s result \<Rightarrow> bool" where
  "raised (Done s) = False"
| "raised (Raised e s) = True"

text \<open>The bounding box agrees with the centre and the extent.\<close>

definition box_fresh :: "graph_screen \<Rightarrow> bool" where
  "box_fresh s \<longleftrightarrow>
     min_gx s = gx s - gw s / 2 \<and> max_gx s = gx s + gw s / 2
     \<and> min_gy s = gy s - gh s / 2 \<and> max_gy s = gy s + gh s / 2"

text \<open>The handle table has an entry (a vertex list or \<^verbatim>\<open>None\<close>) for each shape kind, as
  \<^verbatim>\<open>Screen.__init__\<close> leaves it.\<close>

definition keys_present :: "'a screen_scheme \<Rightarrow> bool" where
  "keys_present s \<longleftrightarrow>
     list_all (\<lambda>vtype. map_of (vertex_lists s) vtype \<noteq> None) vertex_types"

text \<open>The vertex list held for a key, if any.\<close>

definition held :: "'a screen_scheme \<Rightarrow> string \<Rightarrow> vertex_list option" where
  "held s vtype = (case map_of (vertex_lists s) vtype of Some (Some v) \<Rightarrow> Some v | _ \<Rightarrow> None)"

text \<open>What \<^verbatim>\<open>flush\<close> is specified to do for one shape kind, in the words of the
  specification: release the handle held before, if any; if the screen is visible, upload
  the buffered arrays as a new primitive list of the kind's topology, with three floats per
  vertex. \<open>i\<close> is the number of lists uploaded before this one in the same flush.\<close>

definition released :: "'a screen_scheme \<Rightarrow> string \<Rightarrow> gl_call list" where
  "released s vtype = (case held s vtype of Some v \<Rightarrow> [Delete v] | None \<Rightarrow> [])"

definition upload :: "'a screen_scheme \<Rightarrow> nat \<Rightarrow> string \<Rightarrow> gl_mode \<Rightarrow> vertex_list" where
  "upload s i vtype m =
     \<lparr>vid = next_vid (batch s) + i, vcount = length (vertices s vtype) div 3, vmode = m,
      v3f = vertices s vtype, c3B = colors s vtype\<rparr>"

definition uploaded :: "'a screen_scheme \<Rightarrow> nat \<Rightarrow> string \<Rightarrow> gl_mode \<Rightarrow> gl_call list" where
  "uploaded s i vtype m = (if visible s then [Add (upload s i vtype m)] else [])"

text \<open>The entry of the handle table for a kind after \<^verbatim>\<open>flush\<close>: the new list if the screen is
  visible; otherwise no entry if a list was held (\<^verbatim>\<open>del\<close> removed the key) and \<^verbatim>\<open>None\<close> if
  none was.\<close>

definition entry_after_flush ::
  "'a screen_scheme \<Rightarrow> nat \<Rightarrow> string \<Rightarrow> gl_mode \<Rightarrow> vertex_list option option" where
  "entry_after_flush s i vtype m =
     (if visible s then Some (Some (upload s i vtype m))
      else (case held s vtype of Some v \<Rightarrow> None | None \<Rightarrow> Some None))"

text \<open>The attributes of a \<^verbatim>\<open>GraphScreen\<close> that only \<^verbatim>\<open>reset_to\<close> (the reset view and the
  construction-time size) and a middle-button \<^verbatim>\<open>mouse_down\<close> (the drag start) assign after
  construction.\<close>

definition fixed :: "graph_screen \<Rightarrow> (real \<times> real \<times> real \<times> real \<times> real \<times> real) \<times> (real option \<times> real option)" where
  "fixed s = ((ogx s, ogy s, ogw s, ogh s, ow s, oh s), (mdownx s, mdowny s))"

definition screen_size :: "graph_screen \<Rightarrow> real \<times> real" where
  "screen_size s = (scr_w s, scr_h s)"

text \<open>The state of the handle table that the constructor establishes and the methods keep:
  an entry for each shape kind, distinct keys (it is a dict), and no vertex list held for a
  kind while the screen is not visible.\<close>

definition table_ok :: "'a screen_scheme \<Rightarrow> bool" where
  "table_ok s \<longleftrightarrow>
     keys_present s \<and> distinct (map fst (vertex_lists s))
     \<and> (\<not> visible s \<longrightarrow> list_all (\<lambda>vtype. held s vtype = None) vertex_types)"

subsection \<open>Concrete screens\<close>

definition example_graph :: graph_screen where
  "example_graph =
     state_of (GraphScreen_init 0 0 100 100 0 0 10 10 (1 / 2) [255, 255, 255] True True)"

definition example_3d :: screen3d where
  "example_3d = screen.extend (Screen_fields 0 0 100 100 [0, 0, 0] True True)
                  \<lparr>camera = 0, rotation = 1, offset = 2,
                   store = (\<lambda>ref. (0, 0, 0))(0 := (0, 0, 395))\<rparr>"

text \<open>A \<^verbatim>\<open>Screen3D\<close> constructed with one vector object passed as camera, rotation and
  offset.\<close>

definition example_3d_shared :: screen3d where
  "example_3d_shared = screen.extend (Screen_fields 0 0 100 100 [0, 0, 0] True True)
                         \<lparr>camera = 0, rotation = 0, offset = 0,
                          store = (\<lambda>ref. (0, 0, 400))\<rparr>"


section \<open>Properties\<close>

subsection \<open>Evaluation of the concrete screens\<close>

lemmas init_defs = GraphScreen_init_def GraphScreen_set_bg_def reset_to_def set_graph_minmax_def
  set_graph_coords_def Screen_fields_def screen.extend_def batch_add_def new_batch_def Let_def

lemmas key_defs = key_LEFT_def key_UP_def key_RIGHT_def key_DOWN_def key_A_def key_I_def
  key_J_def key_K_def key_L_def key_S_def key_X_def key_Z_def

lemmas mouse_defs = mouse_LEFT_def mouse_MIDDLE_def mouse_RIGHT_def

lemma example_graph_view [simp]:
  "gx example_graph = 0" "gy example_graph = 0" "gw example_graph = 10" "gh example_graph = 10"
  "scr_w example_graph = 100" "scr_h example_graph = 100" "zoom_value example_graph = 1 / 2"
  "total_zoom example_graph = 1" "mdownx example_graph = None" "mdowny example_graph = None"
  "ogx example_graph = 0" "ogy example_graph = 0" "ogw example_graph = 10" "ogh example_graph = 10"
  "ow example_graph = 100" "oh example_graph = 100"
  "min_gx example_graph = - 5" "max_gx example_graph = 5"
  "min_gy example_graph = - 5" "max_gy example_graph = 5"
  by (simp_all add: example_graph_def init_defs)

lemma example_graph_base [simp]:
  "visible example_graph" 
  "vertex_lists example_graph =
     [(''bg'', Some \<lparr>vid = 0, vcount = 4, vmode = GL_QUADS,
                     v3f = [- 5, - 5, - 100, 5, - 5, - 100, 5, 5, - 100, - 5, 5, - 100],
                     c3B = [255, 255, 255, 255, 255, 255, 255, 255, 255, 255, 255, 255]\<rparr>),
      (''points'', None), (''lines'', None), (''line_strip'', None), (''triangles'', None),
      (''quads'', None)]"
  "next_vid (batch example_graph) = 1"
  "vertices example_graph = (\<lambda>k. [])" "colors example_graph = (\<lambda>k. [])"
  by (simp_all add: example_graph_def init_defs vertex_types_def eval_nat_numeral)

subsection \<open>World and screen coordinates\<close>

text \<open>
  Claim C1. In a view with \<open>gw > 0\<close>, \<open>gh > 0\<close>, \<open>w > 0\<close> and \<open>h > 0\<close>, \<^verbatim>\<open>on_plot\<close> returns a
  point that \<^verbatim>\<open>on_screen\<close> maps back to the screen point it came from, and \<^verbatim>\<open>on_screen\<close>
  returns a point that \<^verbatim>\<open>on_plot\<close> maps back to the world point it came from: under exact
  arithmetic the two mappings are mutual inverses, and neither raises.
\<close>

theorem on_screen_on_plot_inverse:
  assumes "gw s > 0" and "gh s > 0" and "scr_w s > 0" and "scr_h s > 0"
  shows "(case on_plot s px py of
            Inl e \<Rightarrow> False
          | Inr (qx, qy) \<Rightarrow> on_screen s qx qy = Inr (px, py))
       \<and> (case on_screen s px py of
            Inl e \<Rightarrow> False
          | Inr (qx, qy) \<Rightarrow> on_plot s qx qy = Inr (px, py))"
  using assms by (simp add: on_plot_def on_screen_def field_simps)

theorem on_screen_on_plot_inverse_witness:
  "gw example_graph > 0 \<and> gh example_graph > 0
   \<and> scr_w example_graph > 0 \<and> scr_h example_graph > 0
   \<and> on_plot example_graph 25 75 = Inr (- 5 / 2, 5 / 2)
   \<and> on_screen example_graph (- 5 / 2) (5 / 2) = Inr (25, 75)"
  using on_screen_on_plot_inverse [of example_graph 25 75]
  by (simp add: on_plot_def on_screen_def)

subsection \<open>The camera of \<^verbatim>\<open>Screen3D\<close>\<close>

text \<open>
  Claim C9. Take a \<^verbatim>\<open>Screen3D\<close> whose camera and rotation are different vector objects (the
  specification's three independent vectors). If the z component of the camera lies in
  \<open>[-400, 400]\<close>, it still does after any \<^verbatim>\<open>key_down\<close>: key S adds 10 and clamps at 400,
  key A subtracts 10 and clamps at -400, and every other key leaves the z component as it is.
\<close>

theorem key_down_camera_z_bounded:
  assumes "camera s \<noteq> rotation s"
    and "- 400 \<le> camera_z s" and "camera_z s \<le> 400"
  shows "- 400 \<le> camera_z (Screen3D_key_down symbol s)
       \<and> camera_z (Screen3D_key_down symbol s) \<le> 400
       \<and> (symbol = key_S \<longrightarrow>
            camera_z (Screen3D_key_down symbol s) = min (camera_z s + 10) 400)
       \<and> (symbol = key_A \<longrightarrow>
            camera_z (Screen3D_key_down symbol s) = max (camera_z s - 10) (- 400))
       \<and> (symbol \<noteq> key_S \<and> symbol \<noteq> key_A \<longrightarrow>
            camera_z (Screen3D_key_down symbol s) = camera_z s)"
  using assms
  by (cases "store s (camera s)")
     (auto simp: Screen3D_key_down_def camera_z_def add_item_def assign_item_def key_defs Let_def)

theorem key_down_camera_z_bounded_witness:
  "camera example_3d \<noteq> rotation example_3d
   \<and> - 400 \<le> camera_z example_3d \<and> camera_z example_3d \<le> 400
   \<and> camera_z example_3d = 395
   \<and> camera_z (Screen3D_key_down key_S example_3d) = 400"
  using key_down_camera_z_bounded [of example_3d key_S]
  by (simp add: example_3d_def camera_z_def screen.extend_def)

text \<open>When the caller passed one vector object as both camera and rotation, the rotation
  keys move the camera too, without a clamp.\<close>

lemma key_down_shared_vector:
  "camera example_3d_shared = rotation example_3d_shared
   \<and> camera_z example_3d_shared = 400
   \<and> camera_z (Screen3D_key_down key_LEFT example_3d_shared) = 405"
  by (simp add: example_3d_shared_def Screen3D_key_down_def camera_z_def add_item_def
      assign_item_def key_defs screen.extend_def)

subsection \<open>Flushing the buffers\<close>

text \<open>One iteration of the loop of \<^verbatim>\<open>flush\<close>, for a kind that has an entry in the handle
  table.\<close>

lemma flush_vtype_step:
  assumes "map_of (vertex_lists s) k \<noteq> None" and "topology k = Some m"
  shows "\<exists>s1. flush_vtype k s = Done s1
           \<and> calls (batch s1) = calls (batch s) @ released s k @ uploaded s 0 k m
           \<and> next_vid (batch s1) = next_vid (batch s) + (if visible s then 1 else 0)
           \<and> map_of (vertex_lists s1) k = entry_after_flush s 0 k m
           \<and> (\<forall>k'. k' \<noteq> k \<longrightarrow> map_of (vertex_lists s1) k' = map_of (vertex_lists s) k')
           \<and> visible s1 = visible s \<and> vertices s1 = vertices s \<and> colors s1 = colors s"
proof -
  from assms(1) obtain h where h: "map_of (vertex_lists s) k = Some h" by auto
  show ?thesis
  proof (cases h)
    case None
    with h assms(2) show ?thesis
      by (simp add: flush_vtype_def released_def uploaded_def upload_def held_def entry_after_flush_def
          batch_add_def Let_def update_conv')
  next
    case (Some v)
    with h assms(2) show ?thesis
      by (simp add: flush_vtype_def released_def uploaded_def upload_def held_def entry_after_flush_def
          batch_add_def vlist_delete_def Let_def update_conv' delete_conv')
  qed
qed


lemma flush_vtype_chain:
  assumes "map_of (vertex_lists s0) k \<noteq> None" and "topology k = Some m"
    and "map_of (vertex_lists s) k = map_of (vertex_lists s0) k"
    and "visible s = visible s0" and "vertices s = vertices s0" and "colors s = colors s0"
    and "next_vid (batch s) = next_vid (batch s0) + (if visible s0 then i else 0)"
  shows "\<exists>s1. flush_vtype k s = Done s1
           \<and> calls (batch s1) = calls (batch s) @ released s0 k @ uploaded s0 i k m
           \<and> next_vid (batch s1) = next_vid (batch s0) + (if visible s0 then Suc i else 0)
           \<and> map_of (vertex_lists s1) k = entry_after_flush s0 i k m
           \<and> (\<forall>k'. k' \<noteq> k \<longrightarrow> map_of (vertex_lists s1) k' = map_of (vertex_lists s) k')
           \<and> visible s1 = visible s0 \<and> vertices s1 = vertices s0 \<and> colors s1 = colors s0"
proof -
  have rel: "released s k = released s0 k"
    by (simp add: released_def held_def assms(3))
  have upl: "uploaded s 0 k m = uploaded s0 i k m"
    by (simp add: uploaded_def upload_def assms)
  have ent: "entry_after_flush s 0 k m = entry_after_flush s0 i k m"
    by (simp add: entry_after_flush_def upload_def held_def assms)
  from assms(1,3) have "map_of (vertex_lists s) k \<noteq> None" by simp
  from flush_vtype_step [OF this assms(2)] obtain s1 where
    "flush_vtype k s = Done s1"
    "calls (batch s1) = calls (batch s) @ released s k @ uploaded s 0 k m"
    "next_vid (batch s1) = next_vid (batch s) + (if visible s then 1 else 0)"
    "map_of (vertex_lists s1) k = entry_after_flush s 0 k m"
    "\<forall>k'. k' \<noteq> k \<longrightarrow> map_of (vertex_lists s1) k' = map_of (vertex_lists s) k'"
    "visible s1 = visible s" "vertices s1 = vertices s" "colors s1 = colors s"
    by blast
  then show ?thesis
    using rel upl ent assms(4-7) by simp
qed

lemma clear_buffers:
  "vertices (clear s) = (\<lambda>k. if k \<in> set vertex_types then [] else vertices s k)"
  "colors (clear s) = (\<lambda>k. if k \<in> set vertex_types then [] else colors s k)"
  "vertex_lists (clear s) = vertex_lists s" "batch (clear s) = batch s" "visible (clear s) = visible s"
  by (auto simp: clear_def clear_vtype_def vertex_types_def fun_eq_iff)

lemma topology_kinds:
  "topology ''points'' = Some GL_POINTS" "topology ''lines'' = Some GL_LINES"
  "topology ''line_strip'' = Some GL_LINE_STRIP" "topology ''triangles'' = Some GL_TRIANGLES"
  "topology ''quads'' = Some GL_QUADS"
  by (simp_all add: topology_def)

lemma flush_loop:
  assumes "keys_present s"
  shows "\<exists>s5. for_each flush_vtype vertex_types s = Done s5
     \<and> calls (batch s5) = calls (batch s)
          @ released s ''points'' @ uploaded s 0 ''points'' GL_POINTS
          @ released s ''lines'' @ uploaded s 1 ''lines'' GL_LINES
          @ released s ''line_strip'' @ uploaded s 2 ''line_strip'' GL_LINE_STRIP
          @ released s ''triangles'' @ uploaded s 3 ''triangles'' GL_TRIANGLES
          @ released s ''quads'' @ uploaded s 4 ''quads'' GL_QUADS
     \<and> map_of (vertex_lists s5) ''points'' = entry_after_flush s 0 ''points'' GL_POINTS
     \<and> map_of (vertex_lists s5) ''lines'' = entry_after_flush s 1 ''lines'' GL_LINES
     \<and> map_of (vertex_lists s5) ''line_strip'' = entry_after_flush s 2 ''line_strip'' GL_LINE_STRIP
     \<and> map_of (vertex_lists s5) ''triangles'' = entry_after_flush s 3 ''triangles'' GL_TRIANGLES
     \<and> map_of (vertex_lists s5) ''quads'' = entry_after_flush s 4 ''quads'' GL_QUADS
     \<and> map_of (vertex_lists s5) ''bg'' = map_of (vertex_lists s) ''bg''
     \<and> visible s5 = visible s \<and> vertices s5 = vertices s \<and> colors s5 = colors s"
proof -
  from assms have keys:
    "map_of (vertex_lists s) ''points'' \<noteq> None" "map_of (vertex_lists s) ''lines'' \<noteq> None"
    "map_of (vertex_lists s) ''line_strip'' \<noteq> None" "map_of (vertex_lists s) ''triangles'' \<noteq> None"
    "map_of (vertex_lists s) ''quads'' \<noteq> None"
    by (simp_all add: keys_present_def vertex_types_def)
  from flush_vtype_chain [OF keys(1) topology_kinds(1), of s 0]
  obtain s1 where s1: "flush_vtype ''points'' s = Done s1"
    "calls (batch s1) = calls (batch s) @ released s ''points'' @ uploaded s 0 ''points'' GL_POINTS"
    "next_vid (batch s1) = next_vid (batch s) + (if visible s then Suc 0 else 0)"
    "map_of (vertex_lists s1) ''points'' = entry_after_flush s 0 ''points'' GL_POINTS"
    "\<forall>k'. k' \<noteq> ''points'' \<longrightarrow> map_of (vertex_lists s1) k' = map_of (vertex_lists s) k'"
    "visible s1 = visible s" "vertices s1 = vertices s" "colors s1 = colors s"
    by auto
  from flush_vtype_chain [OF keys(2) topology_kinds(2), of s1 "Suc 0"] s1
  obtain s2 where s2: "flush_vtype ''lines'' s1 = Done s2"
    "calls (batch s2) = calls (batch s1) @ released s ''lines'' @ uploaded s (Suc 0) ''lines'' GL_LINES"
    "next_vid (batch s2) = next_vid (batch s) + (if visible s then Suc (Suc 0) else 0)"
    "map_of (vertex_lists s2) ''lines'' = entry_after_flush s (Suc 0) ''lines'' GL_LINES"
    "\<forall>k'. k' \<noteq> ''lines'' \<longrightarrow> map_of (vertex_lists s2) k' = map_of (vertex_lists s1) k'"
    "visible s2 = visible s" "vertices s2 = vertices s" "colors s2 = colors s"
    by auto
  from flush_vtype_chain [OF keys(3) topology_kinds(3), of s2 "Suc (Suc 0)"] s1 s2
  obtain s3 where s3: "flush_vtype ''line_strip'' s2 = Done s3"
    "calls (batch s3) = calls (batch s2) @ released s ''line_strip'' @ uploaded s (Suc (Suc 0)) ''line_strip'' GL_LINE_STRIP"
    "next_vid (batch s3) = next_vid (batch s) + (if visible s then Suc (Suc (Suc 0)) else 0)"
    "map_of (vertex_lists s3) ''line_strip'' = entry_after_flush s (Suc (Suc 0)) ''line_strip'' GL_LINE_STRIP"
    "\<forall>k'. k' \<noteq> ''line_strip'' \<longrightarrow> map_of (vertex_lists s3) k' = map_of (vertex_lists s2) k'"
    "visible s3 = visible s" "vertices s3 = vertices s" "colors s3 = colors s"
    by auto
  from flush_vtype_chain [OF keys(4) topology_kinds(4), of s3 "Suc (Suc (Suc 0))"] s1 s2 s3
  obtain s4 where s4: "flush_vtype ''triangles'' s3 = Done s4"
    "calls (batch s4) = calls (batch s3) @ released s ''triangles'' @ uploaded s (Suc (Suc (Suc 0))) ''triangles'' GL_TRIANGLES"
    "next_vid (batch s4) = next_vid (batch s) + (if visible s then Suc (Suc (Suc (Suc 0))) else 0)"
    "map_of (vertex_lists s4) ''triangles'' = entry_after_flush s (Suc (Suc (Suc 0))) ''triangles'' GL_TRIANGLES"
    "\<forall>k'. k' \<noteq> ''triangles'' \<longrightarrow> map_of (vertex_lists s4) k' = map_of (vertex_lists s3) k'"
    "visible s4 = visible s" "vertices s4 = vertices s" "colors s4 = colors s"
    by auto
  from flush_vtype_chain [OF keys(5) topology_kinds(5), of s4 "Suc (Suc (Suc (Suc 0)))"] s1 s2 s3 s4
  obtain s5 where s5: "flush_vtype ''quads'' s4 = Done s5"
    "calls (batch s5) = calls (batch s4) @ released s ''quads'' @ uploaded s (Suc (Suc (Suc (Suc 0)))) ''quads'' GL_QUADS"
    "map_of (vertex_lists s5) ''quads'' = entry_after_flush s (Suc (Suc (Suc (Suc 0)))) ''quads'' GL_QUADS"
    "\<forall>k'. k' \<noteq> ''quads'' \<longrightarrow> map_of (vertex_lists s5) k' = map_of (vertex_lists s4) k'"
    "visible s5 = visible s" "vertices s5 = vertices s" "colors s5 = colors s"
    by auto
  have loop: "for_each flush_vtype vertex_types s = Done s5"
    by (simp add: vertex_types_def s1(1) s2(1) s3(1) s4(1) s5(1))
  have n: "(1::nat) = Suc 0" "(2::nat) = Suc (Suc 0)" "(3::nat) = Suc (Suc (Suc 0))"
    "(4::nat) = Suc (Suc (Suc (Suc 0)))" by simp_all
  show ?thesis
    unfolding n
    apply (rule exI [of _ s5])
    apply (intro conjI)
    apply (rule loop)
    apply (simp add: s1(2) s2(2) s3(2) s4(2) s5(2))
    apply (simp add: s1 s2 s3 s4 s5)+
    done
qed



text \<open>
  Claim C6, as amended. When the buffers of all kinds are empty and the handle table has an
  entry for each kind, \<^verbatim>\<open>flush\<close> returns and the buffers are still empty. If the screen is not
  visible, no kind holds a vertex list afterwards. If the screen is visible, every kind
  holds a newly added vertex list with zero vertices: \<^verbatim>\<open>flush\<close> calls \<^verbatim>\<open>Batch.add\<close> for every
  kind without looking at the size of the buffer.
\<close>

theorem flush_empty_buffers:
  assumes "keys_present s"
    and "\<forall>vtype \<in> set vertex_types. vertices s vtype = [] \<and> colors s vtype = []"
  shows "\<exists>s'. flush s = Done s'
     \<and> (\<forall>vtype \<in> set vertex_types. vertices s' vtype = [] \<and> colors s' vtype = [])
     \<and> (\<not> visible s \<longrightarrow> (\<forall>vtype \<in> set vertex_types. held s' vtype = None))
     \<and> (visible s \<longrightarrow>
          held s' ''points'' = Some \<lparr>vid = next_vid (batch s), vcount = 0, vmode = GL_POINTS, v3f = [], c3B = []\<rparr>
        \<and> held s' ''lines'' = Some \<lparr>vid = next_vid (batch s) + 1, vcount = 0, vmode = GL_LINES, v3f = [], c3B = []\<rparr>
        \<and> held s' ''line_strip'' = Some \<lparr>vid = next_vid (batch s) + 2, vcount = 0, vmode = GL_LINE_STRIP, v3f = [], c3B = []\<rparr>
        \<and> held s' ''triangles'' = Some \<lparr>vid = next_vid (batch s) + 3, vcount = 0, vmode = GL_TRIANGLES, v3f = [], c3B = []\<rparr>
        \<and> held s' ''quads'' = Some \<lparr>vid = next_vid (batch s) + 4, vcount = 0, vmode = GL_QUADS, v3f = [], c3B = []\<rparr>)"
proof -
  from flush_loop [OF assms(1)] obtain s5 where
    loop: "for_each flush_vtype vertex_types s = Done s5"
    and rest: 
     "map_of (vertex_lists s5) ''points'' = entry_after_flush s 0 ''points'' GL_POINTS"
     "map_of (vertex_lists s5) ''lines'' = entry_after_flush s 1 ''lines'' GL_LINES"
     "map_of (vertex_lists s5) ''line_strip'' = entry_after_flush s 2 ''line_strip'' GL_LINE_STRIP"
     "map_of (vertex_lists s5) ''triangles'' = entry_after_flush s 3 ''triangles'' GL_TRIANGLES"
     "map_of (vertex_lists s5) ''quads'' = entry_after_flush s 4 ''quads'' GL_QUADS"
    by blast
  have "flush s = Done (clear s5)"
    by (simp add: flush_def loop)
  moreover have "\<forall>vtype \<in> set vertex_types. vertices (clear s5) vtype = [] \<and> colors (clear s5) vtype = []"
    by (simp add: clear_buffers)
  moreover have "\<not> visible s \<longrightarrow> (\<forall>vtype \<in> set vertex_types. held (clear s5) vtype = None)"
    using rest by (auto simp: held_def clear_buffers entry_after_flush_def vertex_types_def split: option.splits)
  moreover have "visible s \<longrightarrow>
          held (clear s5) ''points'' = Some \<lparr>vid = next_vid (batch s), vcount = 0, vmode = GL_POINTS, v3f = [], c3B = []\<rparr>
        \<and> held (clear s5) ''lines'' = Some \<lparr>vid = next_vid (batch s) + 1, vcount = 0, vmode = GL_LINES, v3f = [], c3B = []\<rparr>
        \<and> held (clear s5) ''line_strip'' = Some \<lparr>vid = next_vid (batch s) + 2, vcount = 0, vmode = GL_LINE_STRIP, v3f = [], c3B = []\<rparr>
        \<and> held (clear s5) ''triangles'' = Some \<lparr>vid = next_vid (batch s) + 3, vcount = 0, vmode = GL_TRIANGLES, v3f = [], c3B = []\<rparr>
        \<and> held (clear s5) ''quads'' = Some \<lparr>vid = next_vid (batch s) + 4, vcount = 0, vmode = GL_QUADS, v3f = [], c3B = []\<rparr>"
    using rest assms(2) by (simp add: held_def clear_buffers entry_after_flush_def upload_def vertex_types_def)
  ultimately show ?thesis by blast
qed

text \<open>Claim C6 as stated fails on a freshly constructed visible screen: all buffers are
  empty, \<^verbatim>\<open>flush\<close> returns, and a vertex list is held for the kind points afterwards.\<close>

theorem flush_empty_buffers_counterexample:
  "vertices example_graph ''points'' = [] \<and> colors example_graph ''points'' = []
   \<and> vertices example_graph ''lines'' = [] \<and> colors example_graph ''lines'' = []
   \<and> vertices example_graph ''line_strip'' = [] \<and> colors example_graph ''line_strip'' = []
   \<and> vertices example_graph ''triangles'' = [] \<and> colors example_graph ''triangles'' = []
   \<and> vertices example_graph ''quads'' = [] \<and> colors example_graph ''quads'' = []
   \<and> \<not> raised (flush example_graph)
   \<and> held (state_of (flush example_graph)) ''points''
       = Some \<lparr>vid = 1, vcount = 0, vmode = GL_POINTS, v3f = [], c3B = []\<rparr>"
  by (simp add: flush_def vertex_types_def flush_vtype_def topology_def batch_add_def Let_def held_def
      clear_def clear_vtype_def update_conv')

text \<open>The amended claim C6 at the freshly constructed visible screen.\<close>

theorem flush_empty_buffers_witness:
  "keys_present example_graph
   \<and> list_all (\<lambda>vtype. vertices example_graph vtype = [] \<and> colors example_graph vtype = [])
        vertex_types
   \<and> visible example_graph
   \<and> (\<exists>s'. flush example_graph = Done s'
         \<and> held s' ''quads'' = Some \<lparr>vid = 5, vcount = 0, vmode = GL_QUADS, v3f = [], c3B = []\<rparr>)"
proof -
  have k: "keys_present example_graph"
    by (simp add: keys_present_def vertex_types_def)
  have e: "\<forall>vtype \<in> set vertex_types. vertices example_graph vtype = [] \<and> colors example_graph vtype = []"
    by simp
  from flush_empty_buffers [OF k e] show ?thesis
    using k by (auto simp: list_all_iff)
qed

subsection \<open>Visibility\<close>

lemma hide_key_fields:
  "calls (batch (hide_key k s)) = calls (batch s) @ released s k"
  "next_vid (batch (hide_key k s)) = next_vid (batch s)"
  "map_of (vertex_lists (hide_key k s)) = (map_of (vertex_lists s))(k \<mapsto> None)"
  "vertices (hide_key k s) = vertices s" "colors (hide_key k s) = colors s"
  "visible (hide_key k s) = visible s"
  by (simp_all add: hide_key_def released_def held_def vlist_delete_def update_conv'
      split: option.splits)





subsection \<open>Results, hooks and what they leave alone\<close>

lemma and_then_Done: "and_then r f = Done s' \<longleftrightarrow> (\<exists>t. r = Done t \<and> f t = Done s')"
  by (cases r) simp_all

lemma proj_and_then:
  assumes "\<And>t. f (state_of (g t)) = f t"
  shows "f (state_of (and_then r g)) = f (state_of r)"
  using assms by (cases r) simp_all

lemma render_contract_frame:
  assumes "render_contract render"
  shows "state_of (render s) =
           s\<lparr>batch := batch (state_of (render s)),
             vertex_lists := vertex_lists (state_of (render s)),
             vertices := vertices (state_of (render s)),
             colors := colors (state_of (render s))\<rparr>"
  using assms unfolding render_contract_def by blast

lemma render_fixed:
  assumes "render_contract render"
  shows "fixed (state_of (render s)) = fixed s"
    and "screen_size (state_of (render s)) = screen_size s"
    and "box_fresh (state_of (render s)) = box_fresh s"
  using arg_cong [OF render_contract_frame [OF assms, of s], of fixed]
    arg_cong [OF render_contract_frame [OF assms, of s], of screen_size]
    arg_cong [OF render_contract_frame [OF assms, of s], of box_fresh]
  by (simp_all add: fixed_def screen_size_def box_fresh_def)

lemma set_bg_fixed:
  "fixed (state_of (GraphScreen_set_bg c s)) = fixed s"
  "screen_size (state_of (GraphScreen_set_bg c s)) = screen_size s"
  "box_fresh (state_of (GraphScreen_set_bg c s)) = box_fresh s"
  by (simp_all add: GraphScreen_set_bg_def fixed_def screen_size_def box_fresh_def batch_add_def Let_def
      split: option.splits)

lemma render_contract_pass: "render_contract Screen_render"
  by (simp add: render_contract_def Screen_render_def)

lemma GraphScreen_init_fields:
  assumes "GraphScreen_init px py w0 h0 gx0 gy0 gw0 gh0 zoom c vis act = Done s0"
  shows "fixed s0 = ((gx0, gy0, gw0, gh0, w0, h0), (None, None))"
    and "screen_size s0 = (w0, h0)"
    and "box_fresh s0"
    and "gx s0 = gx0 \<and> gy s0 = gy0 \<and> gw s0 = gw0 \<and> gh s0 = gh0 \<and> total_zoom s0 = 1"
  using assms
  by (auto simp: GraphScreen_init_def GraphScreen_set_bg_def reset_to_def set_graph_minmax_def
      set_graph_coords_def Screen_fields_def screen.extend_def batch_add_def Let_def
      fixed_def screen_size_def box_fresh_def)

lemma GraphScreen_init_returns:
  "\<not> raised (GraphScreen_init px py w0 h0 gx0 gy0 gw0 gh0 zoom c vis act)"
  by (simp add: GraphScreen_init_def GraphScreen_set_bg_def reset_to_def set_graph_minmax_def
      set_graph_coords_def Screen_fields_def screen.extend_def batch_add_def Let_def)

subsection \<open>Point buffers\<close>

text \<open>
  Claim C4, as amended. \<^verbatim>\<open>Screen2D.add_points\<close> (which \<^verbatim>\<open>GraphScreen\<close> inherits) raises
  \<^verbatim>\<open>IndexError\<close> when the two arrays differ in length and leaves the screen as it was; when
  they have the same length it appends them to the point buffers and leaves the buffers of
  the other kinds alone. \<^verbatim>\<open>set_points\<close> has no length check: for any two arrays it returns
  and the point buffers are the given arrays. (\<^verbatim>\<open>Screen3D.add_points\<close> is not part of this
  statement.)
\<close>

theorem points_length_check:
  "(length points \<noteq> length cs \<longrightarrow> Screen2D_add_points points cs s = Raised IndexError s)
   \<and> (length points = length cs \<longrightarrow>
        (\<exists>s'. Screen2D_add_points points cs s = Done s'
           \<and> vertices s' ''points'' = vertices s ''points'' @ points
           \<and> colors s' ''points'' = colors s ''points'' @ cs
           \<and> (\<forall>k. k \<noteq> ''points'' \<longrightarrow> vertices s' k = vertices s k \<and> colors s' k = colors s k)))
   \<and> (\<exists>s'. set_points points cs s = Done s'
           \<and> vertices s' ''points'' = points
           \<and> colors s' ''points'' = cs
           \<and> (\<forall>k. k \<noteq> ''points'' \<longrightarrow> vertices s' k = vertices s k \<and> colors s' k = colors s k))"
  by (simp add: Screen2D_add_points_def set_points_def)

theorem points_length_check_witness:
  "length [1, 2, 0 :: real] \<noteq> length [0, 0 :: int]
   \<and> Screen2D_add_points [1, 2, 0] [0, 0] example_graph = Raised IndexError example_graph
   \<and> length [1, 2, 0 :: real] = length [7, 8, 9 :: int]
   \<and> vertices (state_of (Screen2D_add_points [1, 2, 0] [7, 8, 9] example_graph)) ''points'' = [1, 2, 0]"
  using points_length_check [of "[1, 2, 0]" "[0, 0]" example_graph]
    points_length_check [of "[1, 2, 0]" "[7, 8, 9]" example_graph]
  by auto

theorem points_length_check_counterexample:
  "length [1, 2, 0 :: real] \<noteq> length ([] :: int list)
   \<and> \<not> raised (set_points [1, 2, 0] [] example_graph)
   \<and> vertices example_graph ''points'' = []
   \<and> vertices (state_of (set_points [1, 2, 0] [] example_graph)) ''points'' = [1, 2, 0]
   \<and> colors (state_of (set_points [1, 2, 0] [] example_graph)) ''points'' = []"
  by (simp add: set_points_def)

text \<open>\<^verbatim>\<open>Screen3D.add_points\<close> has no length check either, unlike its \<^verbatim>\<open>Screen2D\<close>
  counterpart: on arrays of lengths 3 and 0 it returns and appends both.\<close>

lemma Screen3D_add_points_example:
  "Screen3D_add_points [1, 2, 0] [] example_3d
     = Done (example_3d\<lparr>vertices := (vertices example_3d)(''points'' := vertices example_3d ''points'' @ [1, 2, 0]),
                        colors := (colors example_3d)(''points'' := colors example_3d ''points'' @ [])\<rparr>)"
  by (simp add: Screen3D_add_points_def)

subsection \<open>Zoom and the bounding box\<close>

text \<open>
  Claim C2. On a screen with \<open>w \<noteq> 0\<close>, \<open>h \<noteq> 0\<close> and a zoom ratio \<open>\<noteq> 0\<close>, a left-button
  \<^verbatim>\<open>mouse_up\<close> at \<open>(x, y)\<close> sets \<open>gx\<close> to \<open>gx - gw/2 + x * gw/w\<close> and \<open>gy\<close> likewise, multiplies
  \<open>gw\<close> and \<open>gh\<close> by the ratio read from the shared value, sets the bounding box to the new
  centre plus and minus half the new extent, multiplies \<^verbatim>\<open>total_zoom\<close> by \<open>(1/ratio)\<^sup>2\<close>, and then
  calls \<^verbatim>\<open>set_bg\<close> and \<^verbatim>\<open>render\<close> on that state. In particular, on the screen constructed with
  \<open>w = h = 100\<close>, view \<open>gx = gy = 0\<close>, \<open>gw = gh = 10\<close> and ratio \<open>1/2\<close>, a zoom-in at \<open>(50, 50)\<close>
  returns with \<open>gw = gh = 5\<close>, \<open>gx = gy = 0\<close> and \<^verbatim>\<open>total_zoom\<close> = 4.
\<close>

theorem zoom_in_at_point:
  "(scr_w s \<noteq> 0 \<and> scr_h s \<noteq> 0 \<and> zoom_value s \<noteq> 0 \<longrightarrow>
     mouse_up render px py mouse_LEFT s =
       and_then
         (GraphScreen_set_bg (bg s)
            (s\<lparr>gx := gx s - gw s / 2 + px * gw s / scr_w s,
               gy := gy s - gh s / 2 + py * gh s / scr_h s,
               gw := gw s * zoom_value s,
               gh := gh s * zoom_value s,
               min_gx := (gx s - gw s / 2 + px * gw s / scr_w s) - gw s * zoom_value s / 2,
               max_gx := (gx s - gw s / 2 + px * gw s / scr_w s) + gw s * zoom_value s / 2,
               min_gy := (gy s - gh s / 2 + py * gh s / scr_h s) - gh s * zoom_value s / 2,
               max_gy := (gy s - gh s / 2 + py * gh s / scr_h s) + gh s * zoom_value s / 2,
               total_zoom := total_zoom s * (1 / zoom_value s) ^ 2\<rparr>))
         render)
   \<and> (\<exists>s'. mouse_up Screen_render 50 50 mouse_LEFT example_graph = Done s'
          \<and> gw s' = 5 \<and> gh s' = 5 \<and> gx s' = 0 \<and> gy s' = 0 \<and> total_zoom s' = 4
          \<and> min_gx s' = - 5 / 2 \<and> max_gx s' = 5 / 2 \<and> min_gy s' = - 5 / 2 \<and> max_gy s' = 5 / 2)"
proof (intro conjI impI)
  assume "scr_w s \<noteq> 0 \<and> scr_h s \<noteq> 0 \<and> zoom_value s \<noteq> 0"
  then show "mouse_up render px py mouse_LEFT s =
       and_then
         (GraphScreen_set_bg (bg s)
            (s\<lparr>gx := gx s - gw s / 2 + px * gw s / scr_w s,
               gy := gy s - gh s / 2 + py * gh s / scr_h s,
               gw := gw s * zoom_value s,
               gh := gh s * zoom_value s,
               min_gx := (gx s - gw s / 2 + px * gw s / scr_w s) - gw s * zoom_value s / 2,
               max_gx := (gx s - gw s / 2 + px * gw s / scr_w s) + gw s * zoom_value s / 2,
               min_gy := (gy s - gh s / 2 + py * gh s / scr_h s) - gh s * zoom_value s / 2,
               max_gy := (gy s - gh s / 2 + py * gh s / scr_h s) + gh s * zoom_value s / 2,
               total_zoom := total_zoom s * (1 / zoom_value s) ^ 2\<rparr>))
         render"
    by (simp add: mouse_up_def zoom_in_def set_graph_minmax_def Let_def)
next
  show "\<exists>s'. mouse_up Screen_render 50 50 mouse_LEFT example_graph = Done s'
          \<and> gw s' = 5 \<and> gh s' = 5 \<and> gx s' = 0 \<and> gy s' = 0 \<and> total_zoom s' = 4
          \<and> min_gx s' = - 5 / 2 \<and> max_gx s' = 5 / 2 \<and> min_gy s' = - 5 / 2 \<and> max_gy s' = 5 / 2"
    by (simp add: mouse_up_def zoom_in_def set_graph_minmax_def Let_def GraphScreen_set_bg_def
        Screen_render_def batch_add_def split: prod.splits option.splits)
qed

theorem zoom_in_at_point_witness:
  "scr_w example_graph \<noteq> 0 \<and> scr_h example_graph \<noteq> 0 \<and> zoom_value example_graph \<noteq> 0
   \<and> gx (state_of (mouse_up Screen_render 25 75 mouse_LEFT example_graph)) = - 5 / 2
   \<and> gy (state_of (mouse_up Screen_render 25 75 mouse_LEFT example_graph)) = 5 / 2
   \<and> gw (state_of (mouse_up Screen_render 25 75 mouse_LEFT example_graph)) = 5
   \<and> total_zoom (state_of (mouse_up Screen_render 25 75 mouse_LEFT example_graph)) = 4
   \<and> \<not> raised (mouse_up Screen_render 25 75 mouse_LEFT example_graph)"
  using zoom_in_at_point [of example_graph Screen_render 25 75]
  by (simp add: GraphScreen_set_bg_def Screen_render_def batch_add_def Let_def)

text \<open>
  Claim C3, as amended. Whenever one of the operations zoom (left or right button release),
  pan (middle button release), nudge (\<^verbatim>\<open>up\<close>, \<^verbatim>\<open>down\<close>, \<^verbatim>\<open>left\<close>, \<^verbatim>\<open>right\<close>), \<^verbatim>\<open>refit\<close>,
  \<^verbatim>\<open>reset_graph\<close>, \<^verbatim>\<open>reset_screen\<close> or the constructor returns, the bounding box is the centre
  plus and minus half the extent (for a \<^verbatim>\<open>render\<close> override that keeps to its contract).
  \<^verbatim>\<open>set_graph_coords\<close> assigns the centre and the extent only and leaves the bounding box as
  it was: the constructor calls \<^verbatim>\<open>_set_graph_minmax\<close> itself right after it.
  (\<^verbatim>\<open>set_graph_view\<close> is not part of this statement.)
\<close>

theorem box_recomputed:
  assumes "render_contract render"
  shows "(button \<in> {mouse_LEFT, mouse_RIGHT, mouse_MIDDLE}
            \<and> mouse_up render px py button s = Done s1 \<longrightarrow> box_fresh s1)
       \<and> (up render s = Done s2 \<longrightarrow> box_fresh s2)
       \<and> (down render s = Done s3 \<longrightarrow> box_fresh s3)
       \<and> (left render s = Done s4 \<longrightarrow> box_fresh s4)
       \<and> (right render s = Done s5 \<longrightarrow> box_fresh s5)
       \<and> (refit width height s = Done s6 \<longrightarrow> box_fresh s6)
       \<and> (reset_graph s = Done s7 \<longrightarrow> box_fresh s7)
       \<and> (reset_screen render s = Done s8 \<longrightarrow> box_fresh s8)
       \<and> (GraphScreen_init ix iy iw ih vx vy vw vh zoom c vis act = Done s9 \<longrightarrow> box_fresh s9)
       \<and> min_gx (set_graph_coords vx vy vw vh s) = min_gx s
       \<and> max_gx (set_graph_coords vx vy vw vh s) = max_gx s
       \<and> min_gy (set_graph_coords vx vy vw vh s) = min_gy s
       \<and> max_gy (set_graph_coords vx vy vw vh s) = max_gy s"
proof -
  have hooks: "box_fresh t'" if "and_then (GraphScreen_set_bg c' t) render = Done t'" "box_fresh t"
    for t t' c'
  proof -
    from that(1) obtain u where u: "GraphScreen_set_bg c' t = Done u" "render u = Done t'"
      by (auto simp: and_then_Done)
    have "box_fresh u" using set_bg_fixed(3) [of c' t] u(1) that(2) by simp
    then show ?thesis using render_fixed(3) [OF assms, of u] u(2) by simp
  qed
  have minmax: "box_fresh (set_graph_minmax t)" for t
    by (simp add: set_graph_minmax_def box_fresh_def)
  have zi: "box_fresh t'" if "zoom_in px py s = Done t'" for t'
    using that by (auto simp: zoom_in_def set_graph_minmax_def box_fresh_def Let_def split: if_splits)
  have zo: "box_fresh t'" if "zoom_out px py s = Done t'" for t'
    using that by (auto simp: zoom_out_def set_graph_minmax_def box_fresh_def Let_def split: if_splits)
  have pn: "box_fresh t'" if "pan px py s = Done t'" for t'
    using that
    by (auto simp: pan_def set_graph_minmax_def box_fresh_def Let_def
        split: if_splits option.splits sum.splits prod.splits)
  have rg: "box_fresh t'" if "reset_graph s = Done t'" for t'
    using that by (auto simp: reset_graph_def set_graph_minmax_def box_fresh_def Let_def split: if_splits)
  have c1: "button \<in> {mouse_LEFT, mouse_RIGHT, mouse_MIDDLE}
            \<and> mouse_up render px py button s = Done s1 \<longrightarrow> box_fresh s1"
  proof
    assume a: "button \<in> {mouse_LEFT, mouse_RIGHT, mouse_MIDDLE} \<and> mouse_up render px py button s = Done s1"
    then obtain t where t: "(if button = mouse_LEFT then zoom_in px py s
           else if button = mouse_RIGHT then zoom_out px py s
           else if button = mouse_MIDDLE then pan px py s
           else Done s) = Done t" "and_then (GraphScreen_set_bg (bg t) t) render = Done s1"
      unfolding mouse_up_def by (cases "if button = mouse_LEFT then zoom_in px py s
           else if button = mouse_RIGHT then zoom_out px py s
           else if button = mouse_MIDDLE then pan px py s
           else Done s") simp_all
    from t(1) a have "box_fresh t"
      using zi zo pn by (auto split: if_splits)
    with t(2) show "box_fresh s1" by (rule hooks)
  qed
  have c2: "up render s = Done s2 \<longrightarrow> box_fresh s2"
    by (auto simp: up_def Let_def intro: hooks minmax)
  have c3: "down render s = Done s3 \<longrightarrow> box_fresh s3"
    by (auto simp: down_def Let_def intro: hooks minmax)
  have c4: "left render s = Done s4 \<longrightarrow> box_fresh s4"
    by (auto simp: left_def Let_def intro: hooks minmax)
  have c5: "right render s = Done s5 \<longrightarrow> box_fresh s5"
    by (auto simp: right_def Let_def intro: hooks minmax)
  have c6: "refit width height s = Done s6 \<longrightarrow> box_fresh s6"
    by (auto simp: refit_def set_graph_minmax_def box_fresh_def Let_def split: if_splits)
  have c7: "reset_graph s = Done s7 \<longrightarrow> box_fresh s7"
    using rg by blast
  have c8: "reset_screen render s = Done s8 \<longrightarrow> box_fresh s8"
  proof
    assume "reset_screen render s = Done s8"
    then obtain t where "reset_graph s = Done t" "and_then (GraphScreen_set_bg (bg t) t) render = Done s8"
      unfolding reset_screen_def by (cases "reset_graph s") simp_all
    then show "box_fresh s8" using rg hooks by blast
  qed
  have c9: "GraphScreen_init ix iy iw ih vx vy vw vh zoom c vis act = Done s9 \<longrightarrow> box_fresh s9"
    using GraphScreen_init_fields(3) by blast
  show ?thesis
    using c1 c2 c3 c4 c5 c6 c7 c8 c9 by (simp add: set_graph_coords_def)
qed

theorem box_recomputed_witness:
  "render_contract Screen_render
   \<and> up Screen_render example_graph
       = Done (state_of (up Screen_render example_graph))
   \<and> gy (state_of (up Screen_render example_graph)) = 2
   \<and> box_fresh (state_of (up Screen_render example_graph))"
proof -
  have d: "up Screen_render example_graph = Done (state_of (up Screen_render example_graph))"
    by (simp add: up_def GraphScreen_set_bg_def Screen_render_def batch_add_def Let_def
        set_graph_minmax_def)
  have "box_fresh (state_of (up Screen_render example_graph))"
    using d box_recomputed [OF render_contract_pass, where s = example_graph
        and ?s2.0 = "state_of (up Screen_render example_graph)", THEN conjunct2, THEN conjunct1]
    by (rule rev_mp)
  moreover have "gy (state_of (up Screen_render example_graph)) = 2"
    by (simp add: up_def GraphScreen_set_bg_def Screen_render_def batch_add_def Let_def
        set_graph_minmax_def)
  ultimately show ?thesis using d render_contract_pass by simp
qed

text \<open>Claim C3 as stated fails for \<^verbatim>\<open>set_graph_coords\<close>: on the constructed screen, whose box
  is fresh, it moves the centre and the extent and the box stays where it was.\<close>

theorem box_recomputed_counterexample:
  "box_fresh example_graph
   \<and> gx (set_graph_coords 1 1 4 4 example_graph) = 1
   \<and> gw (set_graph_coords 1 1 4 4 example_graph) = 4
   \<and> min_gx (set_graph_coords 1 1 4 4 example_graph) = - 5
   \<and> \<not> box_fresh (set_graph_coords 1 1 4 4 example_graph)"
  by (simp add: set_graph_coords_def box_fresh_def)

text \<open>\<^verbatim>\<open>set_graph_view\<close> does not recompute the bounding box either, unlike the other methods
  that derive a new extent.\<close>

lemma set_graph_view_box:
  assumes "set_graph_view vx vy zoom s = Some r"
  shows "min_gx (state_of r) = min_gx s \<and> max_gx (state_of r) = max_gx s
       \<and> min_gy (state_of r) = min_gy s \<and> max_gy (state_of r) = max_gy s"
  using assms by (auto simp: set_graph_view_def Let_def split: if_splits)

lemma set_graph_view_example:
  "set_graph_view 1 1 4 example_graph
     = Some (Done (example_graph\<lparr>gx := 1, gy := 1, gw := 5, gh := 5, total_zoom := 4\<rparr>))
   \<and> \<not> box_fresh (example_graph\<lparr>gx := 1, gy := 1, gw := 5, gh := 5, total_zoom := 4\<rparr>)"
proof -
  have "sqrt 4 = 2" using real_sqrt_abs [of 2] by simp
  then show ?thesis
    by (simp add: set_graph_view_def Let_def box_fresh_def)
qed

subsection \<open>What a sequence of calls leaves alone\<close>

lemma view_ops_fixed:
  "fixed (state_of (zoom_in px py s)) = fixed s"
  "fixed (state_of (zoom_out px py s)) = fixed s"
  "fixed (state_of (pan px py s)) = fixed s"
  "fixed (state_of (mouse_drag px py s)) = fixed s"
  "fixed (state_of (refit width height s)) = fixed s"
  "fixed (state_of (resize width height s)) = fixed s"
  "fixed (state_of (reset_graph s)) = fixed s"
  "fixed (set_graph_minmax s) = fixed s"
  by (simp_all add: zoom_in_def zoom_out_def pan_def mouse_drag_def refit_def resize_def
      reset_graph_def set_graph_minmax_def fixed_def Let_def
      split: option.splits sum.splits prod.splits)

lemma view_ops_size:
  "screen_size (state_of (zoom_in px py s)) = screen_size s"
  "screen_size (state_of (zoom_out px py s)) = screen_size s"
  "screen_size (state_of (pan px py s)) = screen_size s"
  "screen_size (state_of (mouse_drag px py s)) = screen_size s"
  "screen_size (mouse_down px py button s) = screen_size s"
  "screen_size (set_graph_minmax s) = screen_size s"
  by (simp_all add: zoom_in_def zoom_out_def pan_def mouse_drag_def mouse_down_def
      set_graph_minmax_def screen_size_def Let_def
      split: option.splits sum.splits prod.splits)

lemma hooks_fixed:
  assumes "render_contract render"
  shows "fixed (state_of (and_then (GraphScreen_set_bg c s) render)) = fixed s"
    and "screen_size (state_of (and_then (GraphScreen_set_bg c s) render)) = screen_size s"
  by (simp_all add: proj_and_then [where f = fixed] proj_and_then [where f = screen_size]
      render_fixed [OF assms] set_bg_fixed)

lemma nudges_fixed:
  assumes "render_contract render"
  shows "fixed (state_of (up render s)) = fixed s"
    "fixed (state_of (down render s)) = fixed s"
    "fixed (state_of (left render s)) = fixed s"
    "fixed (state_of (right render s)) = fixed s"
    "screen_size (state_of (up render s)) = screen_size s"
    "screen_size (state_of (down render s)) = screen_size s"
    "screen_size (state_of (left render s)) = screen_size s"
    "screen_size (state_of (right render s)) = screen_size s"
  by (simp_all add: up_def down_def left_def right_def Let_def hooks_fixed [OF assms]
      view_ops_fixed view_ops_size)
     (simp_all add: fixed_def screen_size_def set_graph_minmax_def)

lemma mouse_up_fixed:
  assumes "render_contract render"
  shows "fixed (state_of (mouse_up render px py button s)) = fixed s"
    and "screen_size (state_of (mouse_up render px py button s)) = screen_size s"
  by (simp_all add: mouse_up_def proj_and_then [where f = fixed] proj_and_then [where f = screen_size]
      render_fixed [OF assms] set_bg_fixed view_ops_fixed view_ops_size)

lemma key_down_fixed:
  assumes "render_contract render"
  shows "fixed (state_of (GraphScreen_key_down render symbol s)) = fixed s"
    and "screen_size (state_of (GraphScreen_key_down render symbol s)) = screen_size s"
  by (simp_all add: GraphScreen_key_down_def nudges_fixed [OF assms])

lemma reset_screen_fixed:
  assumes "render_contract render"
  shows "fixed (state_of (reset_screen render s)) = fixed s"
  by (simp add: reset_screen_def proj_and_then [where f = fixed]
      render_fixed [OF assms] set_bg_fixed view_ops_fixed)

lemma hide_keys_fixed: "fixed (fold hide_key ks s) = fixed s"
proof (induction ks arbitrary: s)
  case Nil
  show ?case by simp
next
  case (Cons k ks)
  have "fixed (hide_key k s) = fixed s"
    by (simp add: hide_key_def fixed_def split: option.splits)
  with Cons.IH [of "hide_key k s"] show ?case by simp
qed

lemma set_visible_fixed:
  assumes "render_contract render"
  shows "fixed (state_of (set_visible GraphScreen_set_bg render vis s)) = fixed s"
proof (cases vis)
  case True
  have "fixed (state_of (and_then (render (s\<lparr>visible := True\<rparr>)) (\<lambda>s2. GraphScreen_set_bg (bg s2) s2)))
          = fixed (state_of (render (s\<lparr>visible := True\<rparr>)))"
    by (rule proj_and_then) (simp add: set_bg_fixed)
  also have "\<dots> = fixed (s\<lparr>visible := True\<rparr>)"
    by (rule render_fixed [OF assms])
  finally show ?thesis
    using True by (simp add: set_visible_def fixed_def)
next
  case False
  then show ?thesis
    by (simp add: set_visible_def hide_keys_fixed) (simp add: fixed_def)
qed

lemma flush_loop_fixed: "fixed (state_of (for_each flush_vtype ks s)) = fixed s"
proof (induction ks arbitrary: s)
  case Nil
  show ?case by simp
next
  case (Cons k ks)
  have step: "fixed (state_of (flush_vtype k s)) = fixed s"
    by (simp add: flush_vtype_def fixed_def batch_add_def Let_def split: option.splits)
  have "fixed (state_of (and_then (flush_vtype k s) (for_each flush_vtype ks)))
          = fixed (state_of (flush_vtype k s))"
    by (rule proj_and_then) (rule Cons.IH)
  with step show ?case by simp
qed

lemma flush_fixed: "fixed (state_of (flush s)) = fixed s"
proof -
  have "fixed (clear t) = fixed t" for t :: graph_screen
    by (simp add: clear_def clear_vtype_def vertex_types_def fixed_def)
  then have "fixed (state_of (flush s)) = fixed (state_of (for_each flush_vtype vertex_types s))"
    unfolding flush_def by (intro proj_and_then) simp
  then show ?thesis by (simp add: flush_loop_fixed)
qed

lemma apply_event_fixed:
  assumes "render_contract render"
  shows "\<not> is_reset_to e \<Longrightarrow> fst (fixed (state_of (apply_event render e s))) = fst (fixed s)"
    and "\<not> is_middle_down e \<Longrightarrow> snd (fixed (state_of (apply_event render e s))) = snd (fixed s)"
proof -
  show "\<not> is_reset_to e \<Longrightarrow> fst (fixed (state_of (apply_event render e s))) = fst (fixed s)"
    by (cases e)
       (simp_all add: view_ops_fixed nudges_fixed [OF assms] mouse_up_fixed [OF assms]
         key_down_fixed [OF assms] reset_screen_fixed [OF assms] set_visible_fixed [OF assms]
         flush_fixed set_bg_fixed,
        simp_all add: fixed_def mouse_down_def set_graph_coords_def set_active_def set_pos_def
         set_size_def set_points_def Screen2D_add_points_def)
  show "\<not> is_middle_down e \<Longrightarrow> snd (fixed (state_of (apply_event render e s))) = snd (fixed s)"
    by (cases e)
       (simp_all add: view_ops_fixed nudges_fixed [OF assms] mouse_up_fixed [OF assms]
         key_down_fixed [OF assms] reset_screen_fixed [OF assms] set_visible_fixed [OF assms]
         flush_fixed set_bg_fixed,
        simp_all add: fixed_def mouse_down_def reset_to_def set_graph_coords_def set_active_def set_pos_def
         set_size_def set_points_def Screen2D_add_points_def)
qed

lemma apply_event_size:
  assumes "render_contract render" and "is_view_op e"
  shows "screen_size (state_of (apply_event render e s)) = screen_size s"
  using assms(2)
  by (cases e)
     (simp_all add: view_ops_size nudges_fixed [OF assms(1)] mouse_up_fixed [OF assms(1)]
        key_down_fixed [OF assms(1)])

lemma run_fixed:
  assumes "render_contract render"
  shows "\<forall>e \<in> set es. \<not> is_reset_to e \<Longrightarrow> fst (fixed (run render es s)) = fst (fixed s)"
    and "\<forall>e \<in> set es. \<not> is_middle_down e \<Longrightarrow> snd (fixed (run render es s)) = snd (fixed s)"
    and "\<forall>e \<in> set es. is_view_op e \<Longrightarrow> screen_size (run render es s) = screen_size s"
  by (induction es arbitrary: s)
     (simp_all add: apply_event_fixed [OF assms] apply_event_size [OF assms])

lemma reset_graph_result:
  assumes "ow s \<noteq> 0" and "oh s \<noteq> 0"
  shows "\<exists>s'. reset_graph s = Done s'
      \<and> gx s' = ogx s \<and> gy s' = ogy s
      \<and> gw s' = ogw s * (scr_w s / ow s) \<and> gh s' = ogh s * (scr_h s / oh s)
      \<and> total_zoom s' = 1 \<and> box_fresh s'"
  using assms by (simp add: reset_graph_def set_graph_minmax_def box_fresh_def Let_def)

text \<open>
  Claim C8. Take a \<^verbatim>\<open>GraphScreen\<close> constructed with view \<open>(gx0, gy0, gw0, gh0)\<close> and size
  \<open>(w0, h0)\<close>, both non-zero, and any sequence of calls on it that contains no \<^verbatim>\<open>reset_to\<close>
  (zooms, pans and nudges in particular), whether or not some of them raised. Then
  \<^verbatim>\<open>reset_graph\<close> returns with \<open>gx = gx0\<close>, \<open>gy = gy0\<close>, \<open>gw = gw0 * (w / w0)\<close>,
  \<open>gh = gh0 * (h / h0)\<close> for the current size \<open>(w, h)\<close>, \<^verbatim>\<open>total_zoom\<close> = 1 and a recomputed
  bounding box; after zooms, pans and nudges only, the size is unchanged and \<open>gw = gw0\<close>,
  \<open>gh = gh0\<close>.
\<close>

theorem reset_graph_restores:
  assumes "render_contract render" and "w0 \<noteq> 0" and "h0 \<noteq> 0"
    and "GraphScreen_init px py w0 h0 gx0 gy0 gw0 gh0 zoom c vis act = Done s0"
    and "\<forall>e \<in> set es. \<not> is_reset_to e"
  shows "\<exists>s'. reset_graph (run render es s0) = Done s'
      \<and> gx s' = gx0 \<and> gy s' = gy0
      \<and> gw s' = gw0 * (scr_w (run render es s0) / w0)
      \<and> gh s' = gh0 * (scr_h (run render es s0) / h0)
      \<and> total_zoom s' = 1 \<and> box_fresh s'
      \<and> ((\<forall>e \<in> set es. is_view_op e) \<longrightarrow> gw s' = gw0 \<and> gh s' = gh0)"
proof -
  let ?s = "run render es s0"
  have "fst (fixed ?s) = fst (fixed s0)"
    by (rule run_fixed(1) [OF assms(1,5)])
  then have o: "ogx ?s = gx0" "ogy ?s = gy0" "ogw ?s = gw0" "ogh ?s = gh0" "ow ?s = w0" "oh ?s = h0"
    by (simp_all add: GraphScreen_init_fields(1) [OF assms(4)]) (simp_all add: fixed_def)
  have sz: "scr_w ?s = w0 \<and> scr_h ?s = h0" if "\<forall>e \<in> set es. is_view_op e"
    using run_fixed(3) [OF assms(1) that, of s0] GraphScreen_init_fields(2) [OF assms(4)]
    by (simp add: screen_size_def)
  from o assms(2,3) have "ow ?s \<noteq> 0" "oh ?s \<noteq> 0" by simp_all
  from reset_graph_result [OF this] obtain s' where
    "reset_graph ?s = Done s'" "gx s' = ogx ?s" "gy s' = ogy ?s"
    "gw s' = ogw ?s * (scr_w ?s / ow ?s)" "gh s' = ogh ?s * (scr_h ?s / oh ?s)"
    "total_zoom s' = 1" "box_fresh s'"
    by blast
  then show ?thesis
    using o sz assms(2,3) by auto
qed

theorem reset_graph_restores_witness:
  "render_contract Screen_render \<and> (100::real) \<noteq> 0
   \<and> GraphScreen_init 0 0 100 100 0 0 10 10 (1 / 2) [255, 255, 255] True True = Done example_graph
   \<and> list_all (\<lambda>e. \<not> is_reset_to e) [Mouse_up 25 75 mouse_LEFT, Go_up, Refit 200 100]
   \<and> (\<exists>s'. reset_graph (run Screen_render [Mouse_up 25 75 mouse_LEFT, Go_up, Refit 200 100] example_graph) = Done s'
         \<and> gx s' = 0 \<and> gy s' = 0 \<and> total_zoom s' = 1
         \<and> gw s' = 10 * (scr_w (run Screen_render [Mouse_up 25 75 mouse_LEFT, Go_up, Refit 200 100] example_graph) / 100))"
proof -
  have i: "GraphScreen_init 0 0 100 100 0 0 10 10 (1 / 2) [255, 255, 255] True True = Done example_graph"
    by (simp add: example_graph_def init_defs)
  have n: "\<forall>e \<in> set [Mouse_up 25 75 mouse_LEFT, Go_up, Refit 200 100]. \<not> is_reset_to e"
    by simp
  have z: "(100::real) \<noteq> 0" by simp
  from reset_graph_restores [OF render_contract_pass z z i n] show ?thesis
    using render_contract_pass i by (auto simp: list_all_iff)
qed

text \<open>
  Claim C10. On a \<^verbatim>\<open>GraphScreen\<close> that has received any sequence of calls without a
  middle-button \<^verbatim>\<open>mouse_down\<close> since its construction, the attributes \<^verbatim>\<open>mdownx\<close> and \<^verbatim>\<open>mdowny\<close>
  do not exist, and a middle-button \<^verbatim>\<open>mouse_up\<close> raises \<^verbatim>\<open>AttributeError\<close> after clearing
  \<^verbatim>\<open>drag\<close>, without panning. Right after a middle-button \<^verbatim>\<open>mouse_down\<close>, the pan of a screen
  of non-zero size does not raise.
\<close>

theorem pan_needs_mouse_down:
  assumes "render_contract render"
    and "GraphScreen_init px py w0 h0 gx0 gy0 gw0 gh0 zoom c vis act = Done s0"
    and "\<forall>e \<in> set es. \<not> is_middle_down e"
  shows "mdownx (run render es s0) = None \<and> mdowny (run render es s0) = None
     \<and> mouse_up render qx qy mouse_MIDDLE (run render es s0)
         = Raised AttributeError ((run render es s0)\<lparr>drag := False\<rparr>)
     \<and> (scr_w s \<noteq> 0 \<and> scr_h s \<noteq> 0 \<longrightarrow> \<not> raised (pan qx qy (mouse_down ax ay mouse_MIDDLE s)))"
proof -
  let ?s = "run render es s0"
  have "snd (fixed ?s) = snd (fixed s0)"
    by (rule run_fixed(2) [OF assms(1,3)])
  then have m: "mdownx ?s = None" "mdowny ?s = None"
    by (simp_all add: GraphScreen_init_fields(1) [OF assms(2)]) (simp_all add: fixed_def)
  then have "mouse_up render qx qy mouse_MIDDLE ?s = Raised AttributeError (?s\<lparr>drag := False\<rparr>)"
    by (simp add: mouse_up_def pan_def mouse_defs)
  moreover have "scr_w s \<noteq> 0 \<and> scr_h s \<noteq> 0 \<longrightarrow> \<not> raised (pan qx qy (mouse_down ax ay mouse_MIDDLE s))"
    by (simp add: pan_def mouse_down_def on_plot_def Let_def)
  ultimately show ?thesis using m by simp
qed

theorem pan_needs_mouse_down_witness:
  "render_contract Screen_render
   \<and> GraphScreen_init 0 0 100 100 0 0 10 10 (1 / 2) [255, 255, 255] True True = Done example_graph
   \<and> list_all (\<lambda>e. \<not> is_middle_down e)
        [Mouse_down 10 10 mouse_LEFT, Mouse_up 25 75 mouse_LEFT, Mouse_drag 30 30]
   \<and> mouse_up Screen_render 40 40 mouse_MIDDLE
        (run Screen_render [Mouse_down 10 10 mouse_LEFT, Mouse_up 25 75 mouse_LEFT, Mouse_drag 30 30] example_graph)
       = Raised AttributeError
          ((run Screen_render [Mouse_down 10 10 mouse_LEFT, Mouse_up 25 75 mouse_LEFT, Mouse_drag 30 30] example_graph)\<lparr>drag := False\<rparr>)"
proof -
  have i: "GraphScreen_init 0 0 100 100 0 0 10 10 (1 / 2) [255, 255, 255] True True = Done example_graph"
    by (simp add: example_graph_def init_defs)
  have n: "\<forall>e \<in> set [Mouse_down 10 10 mouse_LEFT, Mouse_up 25 75 mouse_LEFT, Mouse_drag 30 30]. \<not> is_middle_down e"
    by (simp add: mouse_defs)
  from pan_needs_mouse_down [OF render_contract_pass i n, of 40 40] show ?thesis
    using render_contract_pass i n by (simp add: list_all_iff)
qed

subsection \<open>The handle table in reachable states\<close>

text \<open>The hypothesis on the handle table under which the flush properties are stated holds
  on construction and after every sequence of calls, for a \<^verbatim>\<open>render\<close> override that keeps it
  (as one that adds primitives and calls \<^verbatim>\<open>flush\<close> does).\<close>

lemma pred_and_then:
  assumes "P (state_of r)" and "\<And>t. P t \<Longrightarrow> P (state_of (g t))"
  shows "P (state_of (and_then r g))"
  using assms by (cases r) simp_all

lemma table_ok_cong:
  assumes "vertex_lists t = vertex_lists s" and "visible t = visible s"
  shows "table_ok t = table_ok s"
  by (simp add: table_ok_def keys_present_def held_def assms)

lemma init_table_ok:
  assumes "GraphScreen_init px py w0 h0 gx0 gy0 gw0 gh0 zoom c vis act = Done s0"
  shows "table_ok s0"
  using assms
  by (auto simp: init_defs table_ok_def keys_present_def held_def vertex_types_def)

lemma table_ok_updates [simp]:
  "table_ok (s\<lparr>scr_x := r1\<rparr>) = table_ok s" "table_ok (s\<lparr>scr_y := r1\<rparr>) = table_ok s"
  "table_ok (s\<lparr>scr_w := r1\<rparr>) = table_ok s" "table_ok (s\<lparr>scr_h := r1\<rparr>) = table_ok s"
  "table_ok (s\<lparr>active := b1\<rparr>) = table_ok s" "table_ok (s\<lparr>batch := b2\<rparr>) = table_ok s"
  "table_ok (s\<lparr>vertices := f1\<rparr>) = table_ok s" "table_ok (s\<lparr>colors := f2\<rparr>) = table_ok s"
  "table_ok (s\<lparr>bg := c1\<rparr>) = table_ok s"
  by (simp_all add: table_ok_def keys_present_def held_def)

lemma table_ok_view_updates [simp]:
  "table_ok (g\<lparr>gx := r1\<rparr>) = table_ok g" "table_ok (g\<lparr>gy := r1\<rparr>) = table_ok g"
  "table_ok (g\<lparr>gw := r1\<rparr>) = table_ok g" "table_ok (g\<lparr>gh := r1\<rparr>) = table_ok g"
  "table_ok (g\<lparr>min_gx := r1\<rparr>) = table_ok g" "table_ok (g\<lparr>max_gx := r1\<rparr>) = table_ok g"
  "table_ok (g\<lparr>min_gy := r1\<rparr>) = table_ok g" "table_ok (g\<lparr>max_gy := r1\<rparr>) = table_ok g"
  "table_ok (g\<lparr>ogx := r1\<rparr>) = table_ok g" "table_ok (g\<lparr>ogy := r1\<rparr>) = table_ok g"
  "table_ok (g\<lparr>ogw := r1\<rparr>) = table_ok g" "table_ok (g\<lparr>ogh := r1\<rparr>) = table_ok g"
  "table_ok (g\<lparr>zoom_value := r1\<rparr>) = table_ok g" "table_ok (g\<lparr>total_zoom := r1\<rparr>) = table_ok g"
  "table_ok (g\<lparr>drag := b1\<rparr>) = table_ok g"
  "table_ok (g\<lparr>offsx := r1\<rparr>) = table_ok g" "table_ok (g\<lparr>offsy := r1\<rparr>) = table_ok g"
  "table_ok (g\<lparr>mdownx := o1\<rparr>) = table_ok g" "table_ok (g\<lparr>mdowny := o1\<rparr>) = table_ok g"
  for g :: graph_screen
  by (simp_all add: table_ok_def keys_present_def held_def)

lemma table_ok_update_bg:
  assumes "table_ok s" and "vertex_lists t = AList.update ''bg'' v (vertex_lists s)"
    and "visible t = visible s"
  shows "table_ok t"
  using assms
  by (simp add: table_ok_def keys_present_def held_def vertex_types_def update_conv' distinct_update
      del: map_of_eq_Some_iff)

lemma set_bg_table_ok:
  assumes "table_ok s"
  shows "table_ok (state_of (GraphScreen_set_bg c s))"
proof (cases "map_of (vertex_lists s) ''bg''")
  case None
  then show ?thesis using assms by (simp add: GraphScreen_set_bg_def)
next
  case (Some h)
  show ?thesis
    by (rule table_ok_update_bg [OF assms])
       (simp_all add: Some GraphScreen_set_bg_def batch_add_def Let_def)
qed

lemma flush_vtype_distinct:
  "distinct (map fst (vertex_lists s)) \<Longrightarrow>
   distinct (map fst (vertex_lists (state_of (flush_vtype k s))))"
  by (simp add: flush_vtype_def batch_add_def Let_def distinct_update distinct_delete
      split: option.splits)

lemma flush_loop_distinct:
  "distinct (map fst (vertex_lists s)) \<Longrightarrow>
   distinct (map fst (vertex_lists (state_of (for_each flush_vtype ks s))))"
proof (induction ks arbitrary: s)
  case Nil
  then show ?case by simp
next
  case (Cons k ks)
  show ?case
    unfolding for_each.simps
    by (rule pred_and_then [where P = "\<lambda>t. distinct (map fst (vertex_lists t))"])
       (simp_all add: flush_vtype_distinct Cons)
qed

lemma flush_table_ok:
  assumes "table_ok s"
  shows "table_ok (state_of (flush s))"
proof -
  from assms have k: "keys_present s" by (simp add: table_ok_def)
  from flush_loop [OF k] obtain s5 where
    loop: "for_each flush_vtype vertex_types s = Done s5"
    and rest:
     "map_of (vertex_lists s5) ''points'' = entry_after_flush s 0 ''points'' GL_POINTS"
     "map_of (vertex_lists s5) ''lines'' = entry_after_flush s 1 ''lines'' GL_LINES"
     "map_of (vertex_lists s5) ''line_strip'' = entry_after_flush s 2 ''line_strip'' GL_LINE_STRIP"
     "map_of (vertex_lists s5) ''triangles'' = entry_after_flush s 3 ''triangles'' GL_TRIANGLES"
     "map_of (vertex_lists s5) ''quads'' = entry_after_flush s 4 ''quads'' GL_QUADS"
     "visible s5 = visible s"
    by blast
  have d: "distinct (map fst (vertex_lists s5))"
    using flush_loop_distinct [of s vertex_types] assms loop by (simp add: table_ok_def)
  have f: "flush s = Done (clear s5)"
    by (simp add: flush_def loop)
  have "table_ok s5"
    using assms rest d
    by (auto simp: table_ok_def keys_present_def held_def entry_after_flush_def vertex_types_def)
  then have "table_ok (clear s5)"
    using table_ok_cong [of "clear s5" s5] by (simp add: clear_buffers)
  then show ?thesis by (simp add: f)
qed

lemma hide_keys_table:
  "map_of (vertex_lists (fold hide_key ks s))
     = (\<lambda>k. if k \<in> set ks then Some None else map_of (vertex_lists s) k)
   \<and> (distinct (map fst (vertex_lists s)) \<longrightarrow> distinct (map fst (vertex_lists (fold hide_key ks s))))
   \<and> visible (fold hide_key ks s) = visible s"
proof (induction ks arbitrary: s)
  case Nil
  show ?case by simp
next
  case (Cons k ks)
  have "distinct (map fst (vertex_lists s)) \<longrightarrow> distinct (map fst (vertex_lists (hide_key k s)))"
    by (simp add: hide_key_def distinct_update split: option.splits)
  with Cons [of "hide_key k s"] show ?case
    by (auto simp: hide_key_fields fun_eq_iff)
qed

lemma set_visible_table_ok:
  assumes "\<And>t. table_ok t \<Longrightarrow> table_ok (state_of (render t))" and "table_ok s"
  shows "table_ok (state_of (set_visible GraphScreen_set_bg render vis s))"
proof (cases vis)
  case True
  from assms(2) have "table_ok (s\<lparr>visible := True\<rparr>)"
    by (simp add: table_ok_def keys_present_def del: not_None_eq map_of_eq_Some_iff)
  then have "table_ok (state_of (render (s\<lparr>visible := True\<rparr>)))"
    by (rule assms(1))
  then have "table_ok (state_of (and_then (render (s\<lparr>visible := True\<rparr>))
                 (\<lambda>s2. GraphScreen_set_bg (bg s2) s2)))"
    by (rule pred_and_then) (rule set_bg_table_ok)
  with True show ?thesis by (simp add: set_visible_def)
next
  case False
  have k: "\<forall>k \<in> set vertex_types. k \<in> fst ` set (vertex_lists s)"
  proof
    fix k assume "k \<in> set vertex_types"
    with assms(2) have "map_of (vertex_lists s) k \<noteq> None"
      by (simp add: table_ok_def keys_present_def list_all_iff del: not_None_eq map_of_eq_Some_iff)
    then show "k \<in> fst ` set (vertex_lists s)"
      by (simp add: map_of_eq_None_iff del: not_None_eq)
  qed
  from assms(2) have d: "distinct (map fst (vertex_lists s))"
    by (simp add: table_ok_def)
  from hide_keys_table [of "map fst (vertex_lists s)" "s\<lparr>visible := False\<rparr>"] k d
  have "table_ok (fold hide_key (map fst (vertex_lists s)) (s\<lparr>visible := False\<rparr>))"
    by (simp add: table_ok_def keys_present_def held_def list_all_iff del: map_of_eq_Some_iff)
  with False show ?thesis by (simp add: set_visible_def)
qed

lemma view_ops_table_ok:
  "table_ok (state_of (zoom_in px py s)) = table_ok s"
  "table_ok (state_of (zoom_out px py s)) = table_ok s"
  "table_ok (state_of (pan px py s)) = table_ok s"
  "table_ok (state_of (mouse_drag px py s)) = table_ok s"
  "table_ok (state_of (refit width height s)) = table_ok s"
  "table_ok (state_of (resize width height s)) = table_ok s"
  "table_ok (state_of (reset_graph s)) = table_ok s"
  "table_ok (set_graph_minmax s) = table_ok s"
  by (simp_all add: zoom_in_def zoom_out_def pan_def mouse_drag_def refit_def resize_def
        reset_graph_def set_graph_minmax_def Let_def
        split: option.splits sum.splits prod.splits)

lemma hooks_table_ok:
  assumes "\<And>t. table_ok t \<Longrightarrow> table_ok (state_of (render t))" and "table_ok s"
  shows "table_ok (state_of (and_then (GraphScreen_set_bg c s) render))"
  by (rule pred_and_then) (simp_all add: set_bg_table_ok assms)

lemma apply_event_table_ok:
  assumes "\<And>t. table_ok t \<Longrightarrow> table_ok (state_of (render t))" and "table_ok s"
  shows "table_ok (state_of (apply_event render e s))"
proof (cases e)
  case (Mouse_up px py button)
  have "table_ok (state_of (if button = mouse_LEFT then zoom_in px py s
           else if button = mouse_RIGHT then zoom_out px py s
           else if button = mouse_MIDDLE then pan px py s
           else Done s))"
    using assms(2) by (simp add: view_ops_table_ok)
  then have "table_ok (state_of (mouse_up render px py button s))"
    unfolding mouse_up_def
    by (intro pred_and_then [where P = table_ok]) (simp_all add: set_bg_table_ok assms(1))
  with Mouse_up show ?thesis by simp
next
  case Reset_screen
  have "table_ok (state_of (reset_graph s))"
    using assms(2) by (simp add: view_ops_table_ok)
  then have "table_ok (state_of (reset_screen render s))"
    unfolding reset_screen_def
    by (intro pred_and_then [where P = table_ok]) (simp_all add: set_bg_table_ok assms(1))
  with Reset_screen show ?thesis by simp
qed (use assms(2) in \<open>simp_all add: view_ops_table_ok flush_table_ok set_bg_table_ok
      set_visible_table_ok [OF assms(1)] hooks_table_ok [OF assms(1)]
      GraphScreen_key_down_def up_def down_def left_def right_def Let_def
      mouse_down_def reset_to_def set_graph_coords_def set_active_def set_pos_def set_size_def
      set_points_def Screen2D_add_points_def\<close>)

lemma run_table_ok:
  assumes "\<And>t. table_ok t \<Longrightarrow> table_ok (state_of (render t))"
    and "GraphScreen_init px py w0 h0 gx0 gy0 gw0 gh0 zoom c vis act = Done s0"
  shows "table_ok (run render es s0)"
proof -
  have "table_ok s \<Longrightarrow> table_ok (run render es s)" for s
    by (induction es arbitrary: s) (simp_all add: apply_event_table_ok [OF assms(1)])
  then show ?thesis using init_table_ok [OF assms(2)] by blast
qed

end
